theory Spec2Isabelle
  imports
    Main
    "HOL-Library.Multiset"
    "HOL-Library.Char_ord"
    "HOL-Library.List_Lexorder"
    "HOL-Library.Product_Lexorder"
begin

section \<open>Data model\<close>

text \<open>
  The script \<^verbatim>\<open>fetch_genesis_data.py\<close> works on pandas DataFrames. A DataFrame is
  modelled as its ordered column labels and its ordered rows, one cell per column. A cell
  is an integer, a text or the missing value (pandas' NaN). Texts stand for Python
  \<^verbatim>\<open>str\<close> values through their UTF-8 bytes (the order of UTF-8 byte strings is the order
  of the code point sequences, which is how Python compares \<^verbatim>\<open>str\<close>).
  The row index is not part of the model: \<^verbatim>\<open>concat\<close> is called with
  \<^verbatim>\<open>ignore_index=True\<close> and \<^verbatim>\<open>to_csv\<close> with \<^verbatim>\<open>index=False\<close>, so the script never
  reads it.
\<close>

datatype cell = IntC int | StrC string | NaN

record dataframe =
  columns :: "string list"
  rows :: "cell list list"

text \<open>
  A well-formed frame is rectangular and has pairwise different column labels, as the
  prettified tables of the provider have.
\<close>

definition wf_df :: "dataframe \<Rightarrow> bool" where
  "wf_df df \<longleftrightarrow>
     distinct (columns df) \<and> list_all (\<lambda>r. length r = length (columns df)) (rows df)"

definition len :: "dataframe \<Rightarrow> nat" where
  "len df = length (rows df)"

text \<open>The value a row has in column \<open>c\<close>; missing when the frame has no such column.\<close>

definition cell_at :: "string list \<Rightarrow> cell list \<Rightarrow> string \<Rightarrow> cell" where
  "cell_at cols r c = (case map_of (zip cols r) c of Some x \<Rightarrow> x | None \<Rightarrow> NaN)"

text \<open>\<^verbatim>\<open>df[c]\<close>: the cells of column \<open>c\<close>, top to bottom.\<close>

definition column :: "dataframe \<Rightarrow> string \<Rightarrow> cell list" where
  "column df c = map (\<lambda>r. cell_at (columns df) r c) (rows df)"

subsection \<open>Exceptions, messages, files\<close>

text \<open>
  \<open>exc\<close> are the instances of Python's \<^verbatim>\<open>Exception\<close> that the modelled calls raise:
  the ones the script's \<^verbatim>\<open>except Exception\<close> clauses handle. What is raised outside
  that class (\<^verbatim>\<open>KeyboardInterrupt\<close>, \<^verbatim>\<open>SystemExit\<close>) ends the run and is not part
  of the model.
\<close>

datatype exc = TypeError | ValueError | KeyError | InvalidIndexError | OSError
  | NoSectionError | NoOptionError | ConfigError | ProviderError string

text \<open>
  Standard output is the list of messages printed so far. One constructor stands for one
  \<^verbatim>\<open>print\<close> call, or for a block of consecutive calls that print fixed text, and
  carries the values the source interpolates.
\<close>

datatype msg =
    Banner
  | CredentialsNotInEnvironment
  | CredentialsConfigured
  | NoCredentialsProvided
  | NoUsernameConfigured
  | CredentialError exc
  | ContinuingWithoutCredentials
  | FetchingBanner
  | Fetching string
  | Years string string
  | Fetched nat string
  | ColumnsMsg "string list"
  | NoDataReturned string
  | FetchError string exc
  | Traceback exc
  | Combining
  | BehandlungsortRows nat
  | WohnortRows nat
  | NoDataToSave
  | SavedTo string
  | TotalRows nat
  | DataSummary
  | YearsRange cell cell
  | Bundeslaender "nat list"
  | GeschlechtCategories "nat list"
  | AgeGroups "nat list"
  | CombineError exc
  | SavingBanner
  | Completed
  | FailedToSave
  | FailedToFetch

datatype encoding = UTF8 | Latin1

record text_file =
  file_encoding :: encoding
  content :: string

text \<open>What the remote table provider answers to \<^verbatim>\<open>Table(name=...).get_data(...)\<close>.\<close>

datatype provider_result = ProviderRaises exc | ProviderNone | ProviderData dataframe

text \<open>The stored pystatis configuration: the section \<^verbatim>\<open>genesis\<close> and its two options.\<close>

record config =
  has_genesis :: bool
  cfg_username :: "string option"
  cfg_password :: "string option"

subsection \<open>The state of a run\<close>

text \<open>
  DataFrames are Python objects: a variable holds a reference, and \<^verbatim>\<open>df[c] = v\<close>
  changes the object that every holder of the reference sees. The heap is the list of
  the objects allocated so far, a reference is a position in it.
\<close>

type_synonym ref = nat

record world =
  heap :: "dataframe list"
  files :: "string \<Rightarrow> text_file option"
  unwritable :: "string list"
  stdout :: "msg list"
  ties :: "nat list"
  concat_number :: "dataframe \<Rightarrow> dataframe \<Rightarrow> nat \<Rightarrow> int \<Rightarrow> int"
  number_text :: "dataframe \<Rightarrow> string \<Rightarrow> int \<Rightarrow> string"
  quotes_cr :: bool
  provider :: "string \<Rightarrow> string \<Rightarrow> string \<Rightarrow> bool \<Rightarrow> string \<Rightarrow> provider_result"
  environ :: "string \<Rightarrow> string option"
  pystatis_config :: "config option"
  config_writable :: bool

definition print :: "msg list \<Rightarrow> world \<Rightarrow> world" where
  "print ms w = w\<lparr>stdout := stdout w @ ms\<rparr>"

definition deref :: "world \<Rightarrow> ref \<Rightarrow> dataframe" where
  "deref w r = heap w ! r"

definition alloc :: "dataframe \<Rightarrow> world \<Rightarrow> ref \<times> world" where
  "alloc df w = (length (heap w), w\<lparr>heap := heap w @ [df]\<rparr>)"

section \<open>The pandas operations the script calls\<close>

subsection \<open>Column assignment\<close>

text \<open>
  \<^verbatim>\<open>df[c] = v\<close> with a scalar \<open>v\<close>: an existing column \<open>c\<close> is overwritten in every
  row, otherwise a new last column is added.
\<close>

definition set_column :: "string \<Rightarrow> cell \<Rightarrow> dataframe \<Rightarrow> dataframe" where
  "set_column c v df =
     (if c \<in> set (columns df)
      then df\<lparr>rows := map (\<lambda>r. map (\<lambda>(l, x). if l = c then v else x) (zip (columns df) r))
                          (rows df)\<rparr>
      else df\<lparr>columns := columns df @ [c], rows := map (\<lambda>r. r @ [v]) (rows df)\<rparr>)"

definition df_copy :: "ref \<Rightarrow> world \<Rightarrow> ref \<times> world" where
  "df_copy r w = alloc (deref w r) w"

definition df_setitem :: "ref \<Rightarrow> string \<Rightarrow> cell \<Rightarrow> world \<Rightarrow> world" where
  "df_setitem r c v w = w\<lparr>heap := (heap w)[r := set_column c v (deref w r)]\<rparr>"

subsection \<open>Concatenation\<close>

text \<open>
  \<^verbatim>\<open>pd.concat([a, b], ignore_index=True)\<close>. When both frames have the same column
  labels, the rows of \<open>b\<close> are put under the rows of \<open>a\<close>. Otherwise the columns are
  those of \<open>a\<close> followed by the columns only \<open>b\<close> has (outer join, unsorted), each
  row gets the missing value in the columns its frame lacks, and a frame with a repeated
  label cannot be aligned: the call raises \<^verbatim>\<open>InvalidIndexError\<close>.

  A column of the result has one dtype. Where that is not the dtype the column had (an
  integer column that is filled with missing values, or that meets a float column,
  becomes a float column) pandas converts the numbers, and an integer of more than 53
  bits is rounded. The model does not track dtypes: \<open>concat_number\<close> of the state is
  what \<^verbatim>\<open>pd.concat([a, b])\<close> makes of a number in the column at a given position of
  the result. Texts and missing values stay as they are.
\<close>

definition reindex_row :: "string list \<Rightarrow> string list \<Rightarrow> cell list \<Rightarrow> cell list" where
  "reindex_row cols_from cols_to r = map (cell_at cols_from r) cols_to"

definition cast_cell :: "(int \<Rightarrow> int) \<Rightarrow> cell \<Rightarrow> cell" where
  "cast_cell g x = (case x of IntC i \<Rightarrow> IntC (g i) | _ \<Rightarrow> x)"

definition cast_row :: "(nat \<Rightarrow> int \<Rightarrow> int) \<Rightarrow> cell list \<Rightarrow> cell list" where
  "cast_row cast r = map (\<lambda>(j, x). cast_cell (cast j) x) (enumerate 0 r)"

definition concat_frames :: "(nat \<Rightarrow> int \<Rightarrow> int) \<Rightarrow> dataframe \<Rightarrow> dataframe \<Rightarrow> dataframe" where
  "concat_frames cast a b =
     (if columns a = columns b
      then \<lparr>columns = columns a, rows = map (cast_row cast) (rows a @ rows b)\<rparr>
      else
        (let cols = columns a @ filter (\<lambda>c. c \<notin> set (columns a)) (columns b)
         in \<lparr>columns = cols,
             rows = map (\<lambda>r. cast_row cast (reindex_row (columns a) cols r)) (rows a) @
                    map (\<lambda>r. cast_row cast (reindex_row (columns b) cols r)) (rows b)\<rparr>))"

definition pd_concat :: "ref \<Rightarrow> ref \<Rightarrow> world \<Rightarrow> exc + ref \<times> world" where
  "pd_concat a b w =
     (let fa = deref w a; fb = deref w b
      in if columns fa \<noteq> columns fb \<and> \<not> (distinct (columns fa) \<and> distinct (columns fb))
         then Inl InvalidIndexError
         else Inr (alloc (concat_frames (concat_number w fa fb) fa fb) w))"

subsection \<open>Sorting\<close>

text \<open>
  \<^verbatim>\<open>df.sort_values(by)\<close> sorts ascending with missing values last. A label that
  is not a column raises \<^verbatim>\<open>KeyError\<close>, a label that several columns have raises
  \<^verbatim>\<open>ValueError\<close>, and comparing a number with a text raises \<^verbatim>\<open>TypeError\<close>. The
  default algorithm
  (\<^verbatim>\<open>kind='quicksort'\<close>) is not stable: the order among rows of equal key is numpy's
  choice. The model leaves that choice to the environment: \<open>scramble\<close> rearranges the
  rows as the numbers \<open>ties\<close> say, and a stable sort follows.
\<close>

fun scramble :: "nat list \<Rightarrow> 'a list \<Rightarrow> 'a list" where
  "scramble ks [] = []"
| "scramble [] (x # xs) = x # xs"
| "scramble (k # ks) (x # xs) =
     (let ys = scramble ks xs; i = k mod (length ys + 1) in take i ys @ x # drop i ys)"

definition sort_rank :: "cell \<Rightarrow> nat \<times> int \<times> string" where
  "sort_rank x = (case x of IntC i \<Rightarrow> (0, i, []) | StrC s \<Rightarrow> (0, 0, s) | NaN \<Rightarrow> (1, 0, []))"

definition is_int :: "cell \<Rightarrow> bool" where
  "is_int x = (case x of IntC _ \<Rightarrow> True | _ \<Rightarrow> False)"

definition is_str :: "cell \<Rightarrow> bool" where
  "is_str x = (case x of StrC _ \<Rightarrow> True | _ \<Rightarrow> False)"

definition comparable :: "cell list \<Rightarrow> bool" where
  "comparable ks \<longleftrightarrow> \<not> (list_ex is_int ks \<and> list_ex is_str ks)"

definition sort_values_frame :: "nat list \<Rightarrow> string \<Rightarrow> dataframe \<Rightarrow> exc + dataframe" where
  "sort_values_frame ts by df =
     (if by \<notin> set (columns df) then Inl KeyError
      else if count_list (columns df) by \<noteq> 1 then Inl ValueError
      else if \<not> comparable (column df by) then Inl TypeError
      else Inr (df\<lparr>rows := sort_key (\<lambda>r. sort_rank (cell_at (columns df) r by))
                                    (scramble ts (rows df))\<rparr>))"

definition sort_values :: "ref \<Rightarrow> string \<Rightarrow> world \<Rightarrow> exc + ref \<times> world" where
  "sort_values r by w =
     (case sort_values_frame (ties w) by (deref w r) of
        Inl e \<Rightarrow> Inl e
      | Inr df \<Rightarrow> Inr (alloc df w))"

text \<open>The order \<^verbatim>\<open>sort_values\<close> sorts by: numbers and texts among themselves, missing last.\<close>

fun cell_le :: "cell \<Rightarrow> cell \<Rightarrow> bool" where
  "cell_le _ NaN = True"
| "cell_le NaN _ = False"
| "cell_le (IntC i) (IntC j) = (i \<le> j)"
| "cell_le (StrC s) (StrC t) = (s \<le> t)"
| "cell_le _ _ = False"

subsection \<open>Writing CSV\<close>

text \<open>
  \<^verbatim>\<open>to_csv(path, sep=';', index=False, encoding='utf-8')\<close> writes through Python's
  \<^verbatim>\<open>csv\<close> writer with minimal quoting: a header record with the column labels, then
  one record per row, each ended by a line feed; a field is quoted when it contains the
  separator, a quote or a line feed, with inner quotes doubled; a missing value is the
  empty field; a record that consists of one empty field is written as a pair of quotes.
  Whether a carriage return in a field makes the writer quote the field depends on the
  interpreter (newer releases of CPython quote it, older ones write it bare when the
  line ends are line feeds): \<open>quotes_cr\<close> of the state says which.

  A text is written as it is. How a number is written depends on the dtype of its column
  (\<^verbatim>\<open>2005\<close> in an integer column, \<^verbatim>\<open>2005.0\<close> in a float column, which an
  integer column becomes when \<^verbatim>\<open>concat\<close> fills it with missing values). The model
  does not track dtypes: \<open>number_text\<close> of the state is pandas' way of writing a
  number of a given column of a given frame. \<open>str_int\<close> is the way of an integer
  column.
\<close>

definition digit_char :: "nat \<Rightarrow> char" where
  "digit_char n = char_of (48 + n)"

function digits :: "nat \<Rightarrow> string" where
  "digits n = (if n < 10 then [digit_char n] else digits (n div 10) @ [digit_char (n mod 10)])"
  by pat_completeness auto
termination
  by (relation "measure id") auto

declare digits.simps [simp del]

definition str_int :: "int \<Rightarrow> string" where
  "str_int i = (if i < 0 then CHR ''-'' # digits (nat (- i)) else digits (nat i))"

definition cell_text :: "(int \<Rightarrow> string) \<Rightarrow> cell \<Rightarrow> string" where
  "cell_text num x = (case x of IntC i \<Rightarrow> num i | StrC s \<Rightarrow> s | NaN \<Rightarrow> [])"

definition row_texts :: "(string \<Rightarrow> int \<Rightarrow> string) \<Rightarrow> string list \<Rightarrow> cell list \<Rightarrow> string list" where
  "row_texts fmt cols r = map (\<lambda>(c, x). cell_text (fmt c) x) (zip cols r)"

definition quote_char :: char where
  "quote_char = CHR 0x22"

definition newline :: char where
  "newline = CHR 0x0A"

definition carriage_return :: char where
  "carriage_return = CHR 0x0D"

definition special :: "char \<Rightarrow> bool \<Rightarrow> char \<Rightarrow> bool" where
  "special sep qcr c \<longleftrightarrow>
     c = sep \<or> c = quote_char \<or> c = newline \<or> (qcr \<and> c = carriage_return)"

fun escape :: "string \<Rightarrow> string" where
  "escape [] = []"
| "escape (c # cs) = (if c = quote_char then quote_char # quote_char # escape cs
                      else c # escape cs)"

definition csv_field :: "char \<Rightarrow> bool \<Rightarrow> string \<Rightarrow> string" where
  "csv_field sep qcr s =
     (if list_ex (special sep qcr) s then quote_char # escape s @ [quote_char] else s)"

fun join_fields :: "char \<Rightarrow> string list \<Rightarrow> string" where
  "join_fields sep [] = []"
| "join_fields sep [f] = f"
| "join_fields sep (f # fs) = f @ sep # join_fields sep fs"

definition csv_record :: "char \<Rightarrow> bool \<Rightarrow> string list \<Rightarrow> string" where
  "csv_record sep qcr fs =
     (if fs = [[]] then [quote_char, quote_char]
      else join_fields sep (map (csv_field sep qcr) fs)) @ [newline]"

definition to_csv_text ::
  "char \<Rightarrow> bool \<Rightarrow> (dataframe \<Rightarrow> string \<Rightarrow> int \<Rightarrow> string) \<Rightarrow> dataframe \<Rightarrow> string" where
  "to_csv_text sep qcr fmt df =
     csv_record sep qcr (columns df) @
     concat (map (\<lambda>r. csv_record sep qcr (row_texts (fmt df) (columns df) r)) (rows df))"

text \<open>Opening a path that cannot be written raises \<^verbatim>\<open>OSError\<close> and leaves the files alone.\<close>

definition to_csv :: "ref \<Rightarrow> string \<Rightarrow> char \<Rightarrow> encoding \<Rightarrow> world \<Rightarrow> exc + world" where
  "to_csv r path sep enc w =
     (if path \<in> set (unwritable w) then Inl OSError
      else Inr (w\<lparr>files := (files w)(path \<mapsto>
                  \<lparr>file_encoding = enc,
                   content = to_csv_text sep (quotes_cr w) (number_text w) (deref w r)\<rparr>)\<rparr>))"

subsection \<open>Reductions used in the summary\<close>

text \<open>
  \<^verbatim>\<open>min\<close>, \<^verbatim>\<open>max\<close> and \<^verbatim>\<open>nunique\<close> of a column skip missing values. For
  \<^verbatim>\<open>min\<close> and \<^verbatim>\<open>max\<close> pandas (before 3.0, where texts are held in object arrays)
  puts an infinite float in the place of a missing value and then compares: on a column
  of texts with a missing value that comparison raises \<^verbatim>\<open>TypeError\<close>.
\<close>

definition present :: "cell list \<Rightarrow> cell list" where
  "present ks = filter (\<lambda>x. x \<noteq> NaN) ks"

definition reduction_raises :: "cell list \<Rightarrow> bool" where
  "reduction_raises ks \<longleftrightarrow> list_ex is_str ks \<and> list_ex (\<lambda>x. x = NaN) ks"

definition series_min :: "cell list \<Rightarrow> cell" where
  "series_min ks = (case sort_key sort_rank (present ks) of [] \<Rightarrow> NaN | x # _ \<Rightarrow> x)"

definition series_max :: "cell list \<Rightarrow> cell" where
  "series_max ks = (case rev (sort_key sort_rank (present ks)) of [] \<Rightarrow> NaN | x # _ \<Rightarrow> x)"

definition nunique :: "cell list \<Rightarrow> nat" where
  "nunique ks = length (remdups (present ks))"

text \<open>
  \<^verbatim>\<open>df[c].nunique()\<close> gives one count for each column that has the label \<open>c\<close>.
\<close>

definition cell_number :: "nat \<Rightarrow> cell list \<Rightarrow> cell" where
  "cell_number j r = (case drop j r of [] \<Rightarrow> NaN | x # _ \<Rightarrow> x)"

definition columns_named :: "dataframe \<Rightarrow> string \<Rightarrow> cell list list" where
  "columns_named df c =
     map (\<lambda>j. map (cell_number j) (rows df))
       (filter (\<lambda>j. columns df ! j = c) [0..<length (columns df)])"

section \<open>The script\<close>

subsection \<open>Credential setup\<close>

definition truthy :: "string option \<Rightarrow> bool" where
  "truthy v = (case v of None \<Rightarrow> False | Some s \<Rightarrow> s \<noteq> [])"

text \<open>Lines 54 to 62: \<^verbatim>\<open>cfg.get('genesis', 'username')\<close> and the verdict.\<close>

definition verify_username :: "config \<Rightarrow> world \<Rightarrow> bool \<times> world" where
  "verify_username cfg w =
     (if \<not> has_genesis cfg then (False, print [CredentialError NoSectionError] w)
      else case cfg_username cfg of
             None \<Rightarrow> (False, print [CredentialError NoOptionError] w)
           | Some u \<Rightarrow> if u = [] then (False, print [NoUsernameConfigured] w) else (True, w))"

definition setup_genesis_credentials ::
  "string option \<Rightarrow> string option \<Rightarrow> world \<Rightarrow> bool \<times> world" where
  "setup_genesis_credentials username password w =
     (case pystatis_config w of
        None \<Rightarrow> (False, print [CredentialError ConfigError] w)
      | Some cfg \<Rightarrow>
          if truthy username \<and> truthy password then
            if \<not> has_genesis cfg then (False, print [CredentialError NoSectionError] w)
            else if \<not> config_writable w then (False, print [CredentialError OSError] w)
            else
              (let cfg' = cfg\<lparr>cfg_username := username, cfg_password := password\<rparr>
               in verify_username cfg'
                    (print [CredentialsConfigured] (w\<lparr>pystatis_config := Some cfg'\<rparr>)))
          else verify_username cfg (print [NoCredentialsProvided] w))"

subsection \<open>Table fetch\<close>

text \<open>
  Lines 81 to 109. The whole body is inside \<^verbatim>\<open>try\<close>; the handler prints the error
  and the stack trace and returns \<^verbatim>\<open>None\<close>. The returned frame is the provider's
  object itself, which the call has put on the heap.
\<close>

definition fetch_table_data ::
  "string \<Rightarrow> string \<Rightarrow> string \<Rightarrow> world \<Rightarrow> ref option \<times> world" where
  "fetch_table_data table_code startyear endyear w =
     (let w1 = print [Fetching table_code, Years startyear endyear] w
      in case provider w table_code startyear endyear True ''de'' of
           ProviderRaises e \<Rightarrow> (None, print [FetchError table_code e, Traceback e] w1)
         | ProviderNone \<Rightarrow> (None, print [NoDataReturned table_code] w1)
         | ProviderData df \<Rightarrow>
             (let (r, w2) = alloc df w1
              in (Some r, print [Fetched (len df) table_code, ColumnsMsg (columns df)] w2)))"

subsection \<open>Merge and save\<close>

definition tag_column :: string where
  "tag_column = ''Wohnort/Behandlungsort''"

definition behandlungsort_tag :: cell where
  "behandlungsort_tag = StrC ''nach Behandlungsort''"

definition wohnort_tag :: cell where
  "wohnort_tag = StrC ''nach Wohnort''"

text \<open>
  Lines 125 to 128 and 130 to 133: a present input is copied, the copy gets the
  provenance column, and the variable now refers to the copy.
\<close>

definition tag_copy ::
  "ref option \<Rightarrow> cell \<Rightarrow> (nat \<Rightarrow> msg) \<Rightarrow> world \<Rightarrow> ref option \<times> world" where
  "tag_copy d tag rows_msg w =
     (case d of
        None \<Rightarrow> (None, w)
      | Some r \<Rightarrow>
          (let (r', w1) = df_copy r w;
               w2 = df_setitem r' tag_column tag w1
           in (Some r', print [rows_msg (len (deref w2 r'))] w2)))"

datatype combine_result = NoData world | Raised exc world | Combined ref world

text \<open>Lines 147 and 148.\<close>

definition sort_by_jahr :: "ref \<Rightarrow> world \<Rightarrow> combine_result" where
  "sort_by_jahr combined w =
     (if ''Jahr'' \<in> set (columns (deref w combined))
      then (case sort_values combined ''Jahr'' w of
              Inl e \<Rightarrow> Raised e w
            | Inr (sorted_data, w') \<Rightarrow> Combined sorted_data w')
      else Combined combined w)"

text \<open>
  Lines 122 to 148: the value of the variable \<^verbatim>\<open>combined_data\<close> when line 151 is
  reached, or the reason why it is not reached.
\<close>

definition combined_data :: "ref option \<Rightarrow> ref option \<Rightarrow> world \<Rightarrow> combine_result" where
  "combined_data data_behandlungsort data_wohnort w =
     (let w0 = print [Combining] w;
          (db, w1) = tag_copy data_behandlungsort behandlungsort_tag BehandlungsortRows w0;
          (dw, w2) = tag_copy data_wohnort wohnort_tag WohnortRows w1
      in case (db, dw) of
           (Some a, Some b) \<Rightarrow>
             (case pd_concat a b w2 of
                Inl e \<Rightarrow> Raised e w2
              | Inr (c, w3) \<Rightarrow> sort_by_jahr c w3)
         | (Some a, None) \<Rightarrow> sort_by_jahr a w2
         | (None, Some b) \<Rightarrow> sort_by_jahr b w2
         | (None, None) \<Rightarrow> NoData (print [NoDataToSave] w2))"

text \<open>
  Lines 152 to 165: what is printed after the file has been written, and the exception
  that ends the summary, if any (line 159 computes the range of years).
\<close>

definition summary :: "string \<Rightarrow> dataframe \<Rightarrow> msg list \<times> exc option" where
  "summary output_file df =
     (let saved = [SavedTo output_file, TotalRows (len df), ColumnsMsg (columns df)]
      in if ''Jahr'' \<in> set (columns df) then
           if reduction_raises (column df ''Jahr'') then (saved @ [DataSummary], Some TypeError)
           else
             (saved @
              [DataSummary,
               YearsRange (series_min (column df ''Jahr'')) (series_max (column df ''Jahr''))] @
              (if ''Bundesland'' \<in> set (columns df)
               then [Bundeslaender (map nunique (columns_named df ''Bundesland''))] else []) @
              (if ''Geschlecht'' \<in> set (columns df)
               then [GeschlechtCategories (map nunique (columns_named df ''Geschlecht''))]
               else []) @
              (if ''Altersgruppe'' \<in> set (columns df)
               then [AgeGroups (map nunique (columns_named df ''Altersgruppe''))] else []),
              None)
         else (saved, None))"

text \<open>The frame that reaches line 151, if any, and the state in which the stage ends.\<close>

fun result_frame :: "combine_result \<Rightarrow> dataframe option" where
  "result_frame (Combined r w) = Some (deref w r)"
| "result_frame (NoData w) = None"
| "result_frame (Raised e w) = None"

fun result_world :: "combine_result \<Rightarrow> world" where
  "result_world (Combined r w) = w"
| "result_world (NoData w) = w"
| "result_world (Raised e w) = w"

text \<open>
  Lines 121 to 173. An exception raised in the body is handled at line 169: the error and
  the stack trace are printed and the result is \<^verbatim>\<open>False\<close>. When the exception
  comes from the summary, the file has been written before.
\<close>

definition combine_and_save_data ::
  "ref option \<Rightarrow> ref option \<Rightarrow> string \<Rightarrow> world \<Rightarrow> bool \<times> world" where
  "combine_and_save_data data_behandlungsort data_wohnort output_file w =
     (case combined_data data_behandlungsort data_wohnort w of
        NoData w1 \<Rightarrow> (False, w1)
      | Raised e w1 \<Rightarrow> (False, print [CombineError e, Traceback e] w1)
      | Combined c w1 \<Rightarrow>
          (case to_csv c output_file CHR '';'' UTF8 w1 of
             Inl e \<Rightarrow> (False, print [CombineError e, Traceback e] w1)
           | Inr w2 \<Rightarrow>
               (case summary output_file (deref w2 c) of
                  (ms, None) \<Rightarrow> (True, print ms w2)
                | (ms, Some e) \<Rightarrow> (False, print (ms @ [CombineError e, Traceback e]) w2))))"

subsection \<open>Orchestration\<close>

text \<open>Lines 179 to 218: credentials, then the two fetches.\<close>

definition fetch_phase :: "world \<Rightarrow> ref option \<times> ref option \<times> world" where
  "fetch_phase w =
     (let w1 = print [Banner] w;
          username = environ w1 ''GENESIS_USERNAME'';
          password = environ w1 ''GENESIS_PASSWORD'';
          w2 = (if \<not> truthy username \<or> \<not> truthy password
                then print [CredentialsNotInEnvironment] w1 else w1);
          (ok, w3) = setup_genesis_credentials username password w2;
          w4 = (if \<not> ok then print [ContinuingWithoutCredentials] w3 else w3);
          w5 = print [FetchingBanner] w4;
          (data_behandlungsort, w6) = fetch_table_data ''23131-0011'' ''2005'' ''2024'' w5;
          (data_wohnort, w7) = fetch_table_data ''23131-0012'' ''2005'' ''2024'' w6
      in (data_behandlungsort, data_wohnort, w7))"

text \<open>Lines 176 to 246; the result is the process exit code (\<^verbatim>\<open>sys.exit(main())\<close>).\<close>

definition main :: "world \<Rightarrow> int \<times> world" where
  "main w =
     (let (data_behandlungsort, data_wohnort, w7) = fetch_phase w
      in if data_behandlungsort \<noteq> None \<or> data_wohnort \<noteq> None then
           (let (success, w9) =
                  combine_and_save_data data_behandlungsort data_wohnort
                    ''GAC_Daten_Roh.csv'' (print [SavingBanner] w7)
            in if success then (0, print [Completed] w9) else (1, print [FailedToSave] w9))
         else (1, print [FailedToFetch] w7))"

section \<open>Notions used to state the properties\<close>

text \<open>The input frame with its provenance column, as lines 127 and 132 leave the copy.\<close>

definition tagged :: "cell \<Rightarrow> dataframe \<Rightarrow> dataframe" where
  "tagged tag df = set_column tag_column tag df"

text \<open>Lines 147 and 148 on the frame itself.\<close>

definition sorted_frame :: "nat list \<Rightarrow> dataframe \<Rightarrow> exc + dataframe" where
  "sorted_frame ts df =
     (if ''Jahr'' \<in> set (columns df) then sort_values_frame ts ''Jahr'' df else Inr df)"

text \<open>
  The row that a row \<open>r\<close> of the input table \<open>df\<close> is in a dataset with the columns
  \<open>cols\<close>: the provenance \<open>tag\<close> in the provenance column, the value of \<open>r\<close> in
  every other column that \<open>df\<close> has, the missing value elsewhere.
\<close>

definition carried :: "string list \<Rightarrow> cell \<Rightarrow> dataframe \<Rightarrow> cell list \<Rightarrow> cell list" where
  "carried cols tag df r =
     map (\<lambda>c. if c = tag_column then tag else cell_at (columns df) r c) cols"

text \<open>A present input is a live object that holds a well-formed frame.\<close>

definition wf_input :: "world \<Rightarrow> ref option \<Rightarrow> bool" where
  "wf_input w d =
     (case d of None \<Rightarrow> True | Some r \<Rightarrow> r < length (heap w) \<and> wf_df (deref w r))"

text \<open>
  What the script's one call of \<^verbatim>\<open>pd.concat\<close> makes of the numbers: the call has the
  two tagged copies as arguments, and it is made only when both inputs are present.
\<close>

definition conversion :: "world \<Rightarrow> ref option \<Rightarrow> ref option \<Rightarrow> nat \<Rightarrow> int \<Rightarrow> int" where
  "conversion w da db =
     (case (da, db) of
        (Some a, Some b) \<Rightarrow>
          concat_number w (tagged behandlungsort_tag (deref w a)) (tagged wohnort_tag (deref w b))
      | _ \<Rightarrow> (\<lambda>j i. i))"

text \<open>
  The rows an input contributes to a dataset with the columns \<open>cols\<close>, numbers as
  \<open>cast\<close> converts them; none if the input is absent.
\<close>

definition rows_from ::
  "(nat \<Rightarrow> int \<Rightarrow> int) \<Rightarrow> string list \<Rightarrow> cell \<Rightarrow> world \<Rightarrow> ref option \<Rightarrow> cell list multiset" where
  "rows_from cast cols tag w d =
     (case d of None \<Rightarrow> {#}
      | Some r \<Rightarrow>
          mset (map (\<lambda>x. cast_row cast (carried cols tag (deref w r) x)) (rows (deref w r))))"

text \<open>When exactly one input is present: that input and the provenance of its table.\<close>

definition only_input :: "ref option \<Rightarrow> ref option \<Rightarrow> (ref \<times> cell) option" where
  "only_input da db =
     (case (da, db) of
        (Some a, None) \<Rightarrow> Some (a, behandlungsort_tag)
      | (None, Some b) \<Rightarrow> Some (b, wohnort_tag)
      | _ \<Rightarrow> None)"

text \<open>Whether the provider hands out a table for the code and the years \<open>main\<close> asks for.\<close>

definition table_fetched :: "world \<Rightarrow> string \<Rightarrow> bool" where
  "table_fetched w code =
     (case provider w code ''2005'' ''2024'' True ''de'' of ProviderData _ \<Rightarrow> True | _ \<Rightarrow> False)"

text \<open>The records \<^verbatim>\<open>to_csv\<close> hands to the csv writer, and that none of their fields has a
  carriage return.\<close>

definition written_fields :: "world \<Rightarrow> dataframe \<Rightarrow> string list list" where
  "written_fields w df = columns df # map (row_texts (number_text w df) (columns df)) (rows df)"

definition cr_free :: "string list list \<Rightarrow> bool" where
  "cr_free recs = list_all (list_all (\<lambda>f. carriage_return \<notin> set f)) recs"

subsection \<open>Reading CSV\<close>

text \<open>
  The script never reads the file back. The round trip of the specification is stated
  against \<open>csv_parse\<close>, a reader for the format above: fields are split at the
  separator, records end at a line feed, a carriage return or both, a field that starts
  with a quote runs to the closing quote, and a doubled quote inside it stands for one
  quote. The result of \<open>csv_parse sep st s\<close> lists the records of \<open>s\<close>; the
  characters read before the first separator or line break belong to the first field of
  the first record.
\<close>

datatype pstate = RecordStart | FieldStart | Unquoted | Quoted | QuoteSeen | AfterCR

definition push :: "char \<Rightarrow> string list list \<Rightarrow> string list list" where
  "push c rs = (case rs of (f # fs) # rs' \<Rightarrow> ((c # f) # fs) # rs' | _ \<Rightarrow> rs)"

definition new_field :: "string list list \<Rightarrow> string list list" where
  "new_field rs = (case rs of r # rs' \<Rightarrow> ([] # r) # rs' | [] \<Rightarrow> [])"

fun csv_parse :: "char \<Rightarrow> pstate \<Rightarrow> string \<Rightarrow> string list list" where
  "csv_parse sep st [] = (if st = RecordStart \<or> st = AfterCR then [] else [[[]]])"
| "csv_parse sep Quoted (c # cs) =
     (if c = quote_char then csv_parse sep QuoteSeen cs
      else push c (csv_parse sep Quoted cs))"
| "csv_parse sep st (c # cs) =
     (if c = quote_char \<and> st = QuoteSeen then push c (csv_parse sep Quoted cs)
      else if c = quote_char \<and> st \<noteq> Unquoted then csv_parse sep Quoted cs
      else if c = newline \<and> st = AfterCR then csv_parse sep RecordStart cs
      else if c = sep then new_field (csv_parse sep FieldStart cs)
      else if c = newline then [[]] # csv_parse sep RecordStart cs
      else if c = carriage_return then [[]] # csv_parse sep AfterCR cs
      else push c (csv_parse sep Unquoted cs))"

subsection \<open>Example inputs\<close>

definition table_a :: dataframe where
  "table_a = \<lparr>columns = [''Jahr'', ''Bundesland'', ''Wert''],
              rows = [[IntC 2006, StrC ''Bayern'', IntC 12],
                      [IntC 2005, StrC ''Berlin'', IntC 7]]\<rparr>"

definition table_b :: dataframe where
  "table_b = \<lparr>columns = [''Jahr'', ''Bundesland'', ''Wert''],
              rows = [[IntC 2005, StrC ''Hessen'', IntC 3]]\<rparr>"

text \<open>
  In \<open>world0\<close> and the states made from it the numbers are small, \<^verbatim>\<open>pd.concat\<close>
  changes none of them and an integer is written with its digits; the csv writer is one
  that leaves a carriage return bare.
\<close>

definition world0 :: world where
  "world0 = \<lparr>heap = [table_a, table_b], files = Map.empty, unwritable = [], stdout = [],
             ties = [], concat_number = (\<lambda>a b j i. i), number_text = (\<lambda>df c. str_int),
             quotes_cr = False,
             provider = (\<lambda>code s e p l. ProviderNone), environ = Map.empty,
             pystatis_config = None, config_writable = False\<rparr>"

text \<open>
  An integer of more than 53 bits in a column that the other table lacks:
  \<^verbatim>\<open>pd.concat\<close> fills the column with a missing value, the column becomes a float
  column and the integer is rounded to the nearest float, \<open>float64_of_int\<close>.
\<close>

function bit_width :: "int \<Rightarrow> nat" where
  "bit_width n = (if n \<le> 0 then 0 else Suc (bit_width (n div 2)))"
  by pat_completeness auto
termination
  by (relation "measure nat") auto

declare bit_width.simps [simp del]

definition float64_of_int :: "int \<Rightarrow> int" where
  "float64_of_int i =
     (let a = \<bar>i\<bar>; e = bit_width a - 53; q = a div 2 ^ e; r = a mod 2 ^ e;
          q' = (if 2 * r > 2 ^ e \<or> (2 * r = 2 ^ e \<and> odd q) then q + 1 else q)
      in sgn i * (q' * 2 ^ e))"

definition table_big :: dataframe where
  "table_big = \<lparr>columns = [''Wert''], rows = [[IntC 9007199254740993]]\<rparr>"

definition table_small :: dataframe where
  "table_small = \<lparr>columns = [''Bundesland''], rows = [[StrC ''Berlin'']]\<rparr>"

definition world_big :: world where
  "world_big = world0\<lparr>heap := [table_big, table_small],
                      concat_number := (\<lambda>a b j. float64_of_int)\<rparr>"

text \<open>A text with a carriage return, for a csv writer of either kind.\<close>

definition table_cr :: dataframe where
  "table_cr = \<lparr>columns = [''Bundesland'', ''Wert''],
               rows = [[StrC (''Saar'' @ carriage_return # ''land''), IntC 1],
                       [StrC ''Berlin'', IntC 2]]\<rparr>"

definition world_cr :: world where
  "world_cr = world0\<lparr>heap := [table_cr]\<rparr>"

definition world_ties :: world where
  "world_ties = world0\<lparr>ties := [1, 1, 1]\<rparr>"

definition world_raises :: world where
  "world_raises =
     world0\<lparr>provider := (\<lambda>code s e p l. ProviderRaises (ProviderError ''timeout''))\<rparr>"

definition world_one :: world where
  "world_one = world0\<lparr>heap := [],
     provider := (\<lambda>code s e p l.
        if code = ''23131-0012'' then ProviderData table_b
        else ProviderRaises (ProviderError ''timeout''))\<rparr>"

definition world_both :: world where
  "world_both = world0\<lparr>heap := [],
     provider := (\<lambda>code s e p l.
        if code = ''23131-0011'' then ProviderData table_a
        else if code = ''23131-0012'' then ProviderData table_b else ProviderNone)\<rparr>"

section \<open>Properties\<close>

subsection \<open>Auxiliary facts\<close>

lemma heap_print [simp]: "heap (print ms w) = heap w"
  and ties_print [simp]: "ties (print ms w) = ties w"
  and files_print [simp]: "files (print ms w) = files w"
  and unwritable_print [simp]: "unwritable (print ms w) = unwritable w"
  and provider_print [simp]: "provider (print ms w) = provider w"
  and number_text_print [simp]: "number_text (print ms w) = number_text w"
  and concat_number_print [simp]: "concat_number (print ms w) = concat_number w"
  and quotes_cr_print [simp]: "quotes_cr (print ms w) = quotes_cr w"
  and stdout_print [simp]: "stdout (print ms w) = stdout w @ ms"
  and deref_print [simp]: "deref (print ms w) r = deref w r"
  by (simp_all add: print_def deref_def)

lemma tag_copy_Some:
  "tag_copy (Some r) tag m w =
     (Some (length (heap w)),
      print [m (len (tagged tag (deref w r)))] (w\<lparr>heap := heap w @ [tagged tag (deref w r)]\<rparr>))"
  by (simp add: tag_copy_def df_copy_def alloc_def df_setitem_def deref_def tagged_def)

lemma tag_copy_None: "tag_copy None tag m w = (None, w)"
  by (simp add: tag_copy_def)

lemma sort_by_jahr_frame:
  "result_frame (sort_by_jahr c w) =
     (case sorted_frame (ties w) (deref w c) of Inl e \<Rightarrow> None | Inr d \<Rightarrow> Some d)"
  by (auto simp: sort_by_jahr_def sorted_frame_def sort_values_def alloc_def deref_def
      split: sum.splits)

lemma sorted_case:
  "(case sorted_frame ts df of Inl e \<Rightarrow> None | Inr d \<Rightarrow> Some d) = Some d \<longleftrightarrow>
   sorted_frame ts df = Inr d"
  by (simp split: sum.splits)

lemma combined_both_sorted:
  assumes "a < length (heap w)" and "b < length (heap w)"
    and "result_frame (combined_data (Some a) (Some b) w) = Some d"
  shows "sorted_frame (ties w)
           (concat_frames (conversion w (Some a) (Some b))
              (tagged behandlungsort_tag (deref w a)) (tagged wohnort_tag (deref w b))) = Inr d"
proof -
  let ?fa = "tagged behandlungsort_tag (deref w a)" and ?fb = "tagged wohnort_tag (deref w b)"
  have "result_frame (combined_data (Some a) (Some b) w) =
     (if columns ?fa \<noteq> columns ?fb \<and> \<not> (distinct (columns ?fa) \<and> distinct (columns ?fb))
      then None
      else (case sorted_frame (ties w) (concat_frames (concat_number w ?fa ?fb) ?fa ?fb) of
              Inl e \<Rightarrow> None | Inr d \<Rightarrow> Some d))"
    using assms(1,2)
    by (simp add: combined_data_def Let_def tag_copy_Some pd_concat_def alloc_def
        sort_by_jahr_frame deref_def nth_append)
  then show ?thesis
    using assms(3) by (auto simp: conversion_def split: if_splits sum.splits)
qed

lemma combined_left_frame:
  "result_frame (combined_data (Some a) None w) =
     (case sorted_frame (ties w) (tagged behandlungsort_tag (deref w a)) of
        Inl e \<Rightarrow> None | Inr d \<Rightarrow> Some d)"
  by (simp add: combined_data_def tag_copy_Some tag_copy_None sort_by_jahr_frame deref_def)

lemma combined_right_frame:
  "result_frame (combined_data None (Some b) w) =
     (case sorted_frame (ties w) (tagged wohnort_tag (deref w b)) of
        Inl e \<Rightarrow> None | Inr d \<Rightarrow> Some d)"
  by (simp add: combined_data_def tag_copy_Some tag_copy_None sort_by_jahr_frame deref_def)

lemma combined_none: "combined_data None None w = NoData (print [Combining, NoDataToSave] w)"
  by (simp add: combined_data_def tag_copy_None print_def)

lemma mset_scramble: "mset (scramble ks xs) = mset xs"
proof (induction ks xs rule: scramble.induct)
  case (3 k ks x xs)
  define ys where "ys = scramble ks xs"
  define i where "i = k mod (length ys + 1)"
  have "mset (take i ys) + mset (drop i ys) = mset (take i ys @ drop i ys)"
    by (simp only: mset_append)
  then have "mset (take i ys) + mset (drop i ys) = mset ys"
    by (simp only: append_take_drop_id)
  then have "mset (take i ys @ x # drop i ys) = add_mset x (mset ys)"
    by simp
  then show ?case using 3 by (simp add: ys_def i_def Let_def)
qed simp_all

lemma sorted_frame_columns: "sorted_frame ts df = Inr d \<Longrightarrow> columns d = columns df"
  by (auto simp: sorted_frame_def sort_values_frame_def split: if_splits)

lemma sorted_frame_mset: "sorted_frame ts df = Inr d \<Longrightarrow> mset (rows d) = mset (rows df)"
  by (auto simp: sorted_frame_def sort_values_frame_def mset_scramble split: if_splits)

lemma sorted_frame_len: "sorted_frame ts df = Inr d \<Longrightarrow> length (rows d) = length (rows df)"
  using sorted_frame_mset [of ts df d] by (metis size_mset)

lemma sorted_frame_unsorted:
  "''Jahr'' \<notin> set (columns df) \<Longrightarrow> sorted_frame ts df = Inr df"
  by (simp add: sorted_frame_def)

lemma rows_tagged_len: "length (rows (tagged tag df)) = length (rows df)"
  by (simp add: tagged_def set_column_def)

lemma length_cast_row [simp]: "length (cast_row cast r) = length r"
  by (simp add: cast_row_def)

lemma rows_concat_len:
  "length (rows (concat_frames cast a b)) = length (rows a) + length (rows b)"
  by (simp add: concat_frames_def Let_def)


lemma example_combined:
  "result_frame (combined_data (Some 0) (Some 1) world0) =
     Some \<lparr>columns = [''Jahr'', ''Bundesland'', ''Wert'', ''Wohnort/Behandlungsort''],
           rows = [[IntC 2005, StrC ''Berlin'', IntC 7, StrC ''nach Behandlungsort''],
                   [IntC 2005, StrC ''Hessen'', IntC 3, StrC ''nach Wohnort''],
                   [IntC 2006, StrC ''Bayern'', IntC 12, StrC ''nach Behandlungsort'']]\<rparr>"
  by code_simp

lemma example_ties:
  "result_frame (combined_data (Some 0) (Some 1) world_ties) =
     Some \<lparr>columns = [''Jahr'', ''Bundesland'', ''Wert'', ''Wohnort/Behandlungsort''],
           rows = [[IntC 2005, StrC ''Hessen'', IntC 3, StrC ''nach Wohnort''],
                   [IntC 2005, StrC ''Berlin'', IntC 7, StrC ''nach Behandlungsort''],
                   [IntC 2006, StrC ''Bayern'', IntC 12, StrC ''nach Behandlungsort'']]\<rparr>"
  by code_simp

lemma example_single:
  "result_frame (combined_data (Some 0) None world0) =
     Some \<lparr>columns = [''Jahr'', ''Bundesland'', ''Wert'', ''Wohnort/Behandlungsort''],
           rows = [[IntC 2005, StrC ''Berlin'', IntC 7, StrC ''nach Behandlungsort''],
                   [IntC 2006, StrC ''Bayern'', IntC 12, StrC ''nach Behandlungsort'']]\<rparr>"
  by code_simp

lemma example_big:
  "result_frame (combined_data (Some 0) (Some 1) world_big) =
     Some \<lparr>columns = [''Wert'', ''Wohnort/Behandlungsort'', ''Bundesland''],
           rows = [[IntC 9007199254740992, StrC ''nach Behandlungsort'', NaN],
                   [NaN, StrC ''nach Wohnort'', StrC ''Berlin'']]\<rparr>"
  by code_simp


subsection \<open>Row count of the combined dataset\<close>

text \<open>
  Claim C1. When both inputs are present (two live DataFrame objects), the combined
  dataset that reaches the write in line 151 has as many rows as the two inputs together:
  tagging, concatenation and sorting neither drop nor merge rows.
\<close>

theorem combined_row_count:
  assumes "a < length (heap w)" and "b < length (heap w)"
    and "result_frame (combined_data (Some a) (Some b) w) = Some d"
  shows "len d = len (deref w a) + len (deref w b)"
  using sorted_frame_len [OF combined_both_sorted [OF assms]]
  by (simp add: len_def rows_tagged_len rows_concat_len)

theorem combined_row_count_witness:
  "0 < length (heap world0) \<and> 1 < length (heap world0) \<and>
   result_frame (combined_data (Some 0) (Some 1) world0) \<noteq> None \<and>
   len (the (result_frame (combined_data (Some 0) (Some 1) world0))) =
     len (deref world0 0) + len (deref world0 1)"
  using combined_row_count [where a = 0 and b = 1 and w = world0] example_combined
  by (simp add: world0_def)

subsection \<open>The inputs are not modified\<close>

lemma sort_by_jahr_heap:
  "take (length (heap w)) (heap (result_world (sort_by_jahr c w))) = heap w"
  by (auto simp: sort_by_jahr_def sort_values_def alloc_def split: sum.splits)

lemma combined_data_heap:
  "take (length (heap w)) (heap (result_world (combined_data da db w))) = heap w"
proof -
  have grow: "take (length h) (heap (result_world (sort_by_jahr c w'))) = h"
    if "heap w' = h @ ext" for h ext c w'
  proof -
    have "take (length h) (take (length (heap w')) (heap (result_world (sort_by_jahr c w')))) = h"
      by (simp only: sort_by_jahr_heap) (simp add: that)
    then show ?thesis by (simp add: that min_def)
  qed
  show ?thesis
  proof (cases da; cases db)
    fix a b assume "da = Some a" "db = Some b"
    then show ?thesis
      by (auto simp: combined_data_def tag_copy_Some pd_concat_def alloc_def Let_def
          intro!: grow)
  next
    fix a assume "da = Some a" "db = None"
    then show ?thesis
      apply (simp add: combined_data_def tag_copy_Some tag_copy_None Let_def)
      apply (rule grow)
      apply simp
      done
  next
    fix b assume "da = None" "db = Some b"
    then show ?thesis
      apply (simp add: combined_data_def tag_copy_Some tag_copy_None Let_def)
      apply (rule grow)
      apply simp
      done
  next
    assume "da = None" "db = None"
    then show ?thesis by (simp add: combined_none)
  qed
qed

lemma combine_and_save_heap:
  "heap (snd (combine_and_save_data da db out w)) = heap (result_world (combined_data da db w))"
  by (cases "combined_data da db w")
     (auto simp: combine_and_save_data_def to_csv_def split: sum.splits prod.splits option.splits)

text \<open>
  Claim C9. \<open>combine_and_save_data\<close> leaves its input tables unchanged: every object
  that was on the heap before the call, the two inputs among them, is the same frame
  after the call. The provenance column is written into the copies, which are new objects.
\<close>

theorem inputs_unchanged:
  "take (length (heap w)) (heap (snd (combine_and_save_data da db out w))) = heap w"
  by (simp add: combine_and_save_heap combined_data_heap)

theorem inputs_unchanged_witness:
  "length (heap (snd (combine_and_save_data (Some 0) (Some 1) ''out.csv'' world0))) = 6 \<and>
   heap (snd (combine_and_save_data (Some 0) (Some 1) ''out.csv'' world0)) ! 2 =
     tagged behandlungsort_tag table_a \<and>
   take 2 (heap (snd (combine_and_save_data (Some 0) (Some 1) ''out.csv'' world0))) =
     [table_a, table_b]"
proof -
  have "length (heap (snd (combine_and_save_data (Some 0) (Some 1) ''out.csv'' world0))) = 6 \<and>
    heap (snd (combine_and_save_data (Some 0) (Some 1) ''out.csv'' world0)) ! 2 =
      tagged behandlungsort_tag table_a"
    by code_simp
  moreover have "heap world0 = [table_a, table_b]" by (simp add: world0_def)
  ultimately show ?thesis
    using inputs_unchanged [of world0 "Some 0" "Some 1" "''out.csv''"]
    by (simp add: numeral_2_eq_2)
qed

subsection \<open>Table fetch\<close>

text \<open>
  Claim C8. For every table code and year range \<open>fetch_table_data\<close> returns normally.
  If the provider call raises, the handler prints the error and the stack trace and the
  result is \<open>None\<close>; if the provider has no data, the result is \<open>None\<close>; otherwise
  the result is the provider's frame, and no older object has changed.
\<close>

theorem fetch_outcomes:
  "(case provider w code s e True ''de'' of
      ProviderRaises x \<Rightarrow>
        fetch_table_data code s e w =
          (None, print [Fetching code, Years s e, FetchError code x, Traceback x] w)
    | ProviderNone \<Rightarrow>
        fetch_table_data code s e w =
          (None, print [Fetching code, Years s e, NoDataReturned code] w)
    | ProviderData df \<Rightarrow>
        fst (fetch_table_data code s e w) = Some (length (heap w)) \<and>
        deref (snd (fetch_table_data code s e w)) (length (heap w)) = df \<and>
        take (length (heap w)) (heap (snd (fetch_table_data code s e w))) = heap w)"
  by (simp add: fetch_table_data_def print_def alloc_def deref_def Let_def
      split: provider_result.splits)

theorem fetch_outcomes_witness:
  "fetch_table_data ''23131-0011'' ''2005'' ''2024'' world_raises =
     (None, print [Fetching ''23131-0011'', Years ''2005'' ''2024'',
                   FetchError ''23131-0011'' (ProviderError ''timeout''),
                   Traceback (ProviderError ''timeout'')] world_raises)"
  using fetch_outcomes [where w = world_raises and code = "''23131-0011''"
      and s = "''2005''" and e = "''2024''"]
  by (simp add: world_raises_def)

subsection \<open>Exit code\<close>

lemma setup_keeps [simp]:
  "provider (snd (setup_genesis_credentials u p w)) = provider w"
  "files (snd (setup_genesis_credentials u p w)) = files w"
  "heap (snd (setup_genesis_credentials u p w)) = heap w"
  by (auto simp: setup_genesis_credentials_def verify_username_def Let_def
      split: option.splits)

lemma fetch_keeps [simp]:
  "provider (snd (fetch_table_data c s e w)) = provider w"
  "files (snd (fetch_table_data c s e w)) = files w"
  by (auto simp: fetch_table_data_def alloc_def Let_def split: provider_result.splits)

lemma fetch_result:
  "fst (fetch_table_data c ''2005'' ''2024'' w) \<noteq> None \<longleftrightarrow> table_fetched w c"
  by (auto simp: fetch_table_data_def table_fetched_def alloc_def Let_def
      split: provider_result.splits)

lemma fetch_phase_shape:
  obtains w5 where "provider w5 = provider w" and "files w5 = files w"
    and "fetch_phase w =
      (fst (fetch_table_data ''23131-0011'' ''2005'' ''2024'' w5),
       fetch_table_data ''23131-0012'' ''2005'' ''2024''
         (snd (fetch_table_data ''23131-0011'' ''2005'' ''2024'' w5)))"
proof -
  define w1 where "w1 = print [Banner] w"
  define w2 where "w2 = (if \<not> truthy (environ w1 ''GENESIS_USERNAME'') \<or>
                            \<not> truthy (environ w1 ''GENESIS_PASSWORD'')
                         then print [CredentialsNotInEnvironment] w1 else w1)"
  define s3 where "s3 = setup_genesis_credentials (environ w1 ''GENESIS_USERNAME'')
                          (environ w1 ''GENESIS_PASSWORD'') w2"
  define w4 where "w4 = (if \<not> fst s3 then print [ContinuingWithoutCredentials] (snd s3)
                         else snd s3)"
  define w5 where "w5 = print [FetchingBanner] w4"
  have p2: "provider w2 = provider w" "files w2 = files w"
    by (simp_all add: w2_def w1_def)
  have p3: "provider (snd s3) = provider w" "files (snd s3) = files w"
    by (simp_all add: s3_def p2)
  have p5: "provider w5 = provider w" "files w5 = files w"
    by (simp_all add: w5_def w4_def p3)
  have eq: "fetch_phase w =
      (fst (fetch_table_data ''23131-0011'' ''2005'' ''2024'' w5),
       fetch_table_data ''23131-0012'' ''2005'' ''2024''
         (snd (fetch_table_data ''23131-0011'' ''2005'' ''2024'' w5)))"
    unfolding fetch_phase_def Let_def split_beta w5_def w4_def s3_def w2_def w1_def
    by (simp only: prod.collapse)
  show thesis by (rule that [OF p5(1) p5(2) eq])
qed

lemma fetch_phase_first:
  "fst (fetch_phase w) \<noteq> None \<longleftrightarrow> table_fetched w ''23131-0011''"
proof -
  obtain w5 where p: "provider w5 = provider w"
    and eq: "fetch_phase w =
      (fst (fetch_table_data ''23131-0011'' ''2005'' ''2024'' w5),
       fetch_table_data ''23131-0012'' ''2005'' ''2024''
         (snd (fetch_table_data ''23131-0011'' ''2005'' ''2024'' w5)))"
    by (rule fetch_phase_shape)
  have "table_fetched w5 ''23131-0011'' = table_fetched w ''23131-0011''"
    by (simp add: table_fetched_def p)
  then show ?thesis
    by (simp only: eq fst_conv fetch_result)
qed

lemma fetch_phase_second:
  "fst (snd (fetch_phase w)) \<noteq> None \<longleftrightarrow> table_fetched w ''23131-0012''"
proof -
  obtain w5 where p: "provider w5 = provider w"
    and eq: "fetch_phase w =
      (fst (fetch_table_data ''23131-0011'' ''2005'' ''2024'' w5),
       fetch_table_data ''23131-0012'' ''2005'' ''2024''
         (snd (fetch_table_data ''23131-0011'' ''2005'' ''2024'' w5)))"
    by (rule fetch_phase_shape)
  have "table_fetched (snd (fetch_table_data ''23131-0011'' ''2005'' ''2024'' w5)) ''23131-0012''
          = table_fetched w ''23131-0012''"
    by (simp add: table_fetched_def p)
  then show ?thesis
    by (simp only: eq fst_conv snd_conv fetch_result)
qed

lemma fetch_phase_files: "files (snd (snd (fetch_phase w))) = files w"
proof -
  obtain w5 where "files w5 = files w"
    and "fetch_phase w =
      (fst (fetch_table_data ''23131-0011'' ''2005'' ''2024'' w5),
       fetch_table_data ''23131-0012'' ''2005'' ''2024''
         (snd (fetch_table_data ''23131-0011'' ''2005'' ''2024'' w5)))"
    by (rule fetch_phase_shape)
  then show ?thesis by simp
qed

text \<open>
  Claim C3. If both fetches return \<open>None\<close>, the values \<open>main\<close> holds for the two
  tables are both absent; \<open>combine_and_save_data\<close> on two absent inputs prints that
  there is nothing to save and returns \<open>False\<close> without touching any file; and
  \<open>main\<close> ends with exit code 1 with all files as they were.
\<close>

theorem both_fetches_fail:
  assumes "\<not> table_fetched w ''23131-0011''" and "\<not> table_fetched w ''23131-0012''"
  shows "fst (fetch_phase w) = None \<and> fst (snd (fetch_phase w)) = None \<and>
         combine_and_save_data None None out w' = (False, print [Combining, NoDataToSave] w') \<and>
         files (snd (combine_and_save_data None None out w')) = files w' \<and>
         fst (main w) = 1 \<and> files (snd (main w)) = files w"
proof -
  have f1: "fst (fetch_phase w) = None" using assms(1) fetch_phase_first [of w] by simp
  have f2: "fst (snd (fetch_phase w)) = None" using assms(2) fetch_phase_second [of w] by simp
  have c: "combine_and_save_data None None out w' = (False, print [Combining, NoDataToSave] w')"
    by (simp add: combine_and_save_data_def combined_none)
  have m: "main w = (1, print [FailedToFetch] (snd (snd (fetch_phase w))))"
    using f1 f2 by (simp add: main_def split_beta)
  show ?thesis using f1 f2 c m by (simp add: fetch_phase_files)
qed

theorem both_fetches_fail_witness:
  "\<not> table_fetched world0 ''23131-0011'' \<and> \<not> table_fetched world0 ''23131-0012'' \<and>
   fst (main world0) = 1 \<and> files (snd (main world0)) ''GAC_Daten_Roh.csv'' = None"
  using both_fetches_fail [of world0]
  by (simp add: table_fetched_def world0_def)

text \<open>
  Claim C2, amended. The exit code is 0 exactly when at least one of the two fetches
  returned a table and \<open>combine_and_save_data\<close> returned \<open>True\<close>, and 1 otherwise:
  when both fetches failed, or when combining or saving failed. A single failed fetch
  does not by itself make the exit code 1.
\<close>

theorem exit_code:
  "fst (main w) =
     (if (table_fetched w ''23131-0011'' \<or> table_fetched w ''23131-0012'') \<and>
         fst (combine_and_save_data (fst (fetch_phase w)) (fst (snd (fetch_phase w)))
                ''GAC_Daten_Roh.csv'' (print [SavingBanner] (snd (snd (fetch_phase w)))))
      then 0 else 1)"
  using fetch_phase_first [of w] fetch_phase_second [of w]
  by (simp add: main_def split_beta)

theorem exit_code_witness:
  "(table_fetched world_both ''23131-0011'' \<or> table_fetched world_both ''23131-0012'') \<and>
   fst (combine_and_save_data (fst (fetch_phase world_both)) (fst (snd (fetch_phase world_both)))
          ''GAC_Daten_Roh.csv'' (print [SavingBanner] (snd (snd (fetch_phase world_both))))) \<and>
   fst (main world_both) = 0"
proof -
  have c: "(table_fetched world_both ''23131-0011'' \<or> table_fetched world_both ''23131-0012'') \<and>
    fst (combine_and_save_data (fst (fetch_phase world_both)) (fst (snd (fetch_phase world_both)))
          ''GAC_Daten_Roh.csv'' (print [SavingBanner] (snd (snd (fetch_phase world_both)))))"
    by code_simp
  show ?thesis using exit_code [of world_both] c by simp
qed

text \<open>
  Claim C2 as stated fails: in \<open>world_one\<close> the provider raises for table 23131-0011,
  so that fetch fails and returns \<open>None\<close>; the fetch of table 23131-0012 succeeds,
  its rows are saved and the exit code is 0.
\<close>

theorem one_fetch_fails_exit_zero:
  "fst (fetch_table_data ''23131-0011'' ''2005'' ''2024'' world_one) = None \<and>
   \<not> table_fetched world_one ''23131-0011'' \<and>
   files (snd (main world_one)) ''GAC_Daten_Roh.csv'' \<noteq> None \<and>
   fst (main world_one) = 0"
  by code_simp

subsection \<open>Rows of the combined dataset\<close>

lemma cell_at_map: "cell_at cols (map f cols) c = (if c \<in> set cols then f c else NaN)"
  by (simp add: cell_at_def map_of_zip_map)

lemma cell_at_absent: "c \<notin> set cols \<Longrightarrow> cell_at cols r c = NaN"
proof -
  assume "c \<notin> set cols"
  then have "c \<notin> fst ` set (zip cols r)"
    by (auto dest: set_zip_leftD)
  then have "map_of (zip cols r) c = None"
    by (simp add: map_of_eq_None_iff)
  then show ?thesis by (simp add: cell_at_def)
qed

lemma zip_as_columns:
  assumes "length cols = length r" and "distinct cols"
  shows "map (\<lambda>(l, x). g l x) (zip cols r) = map (\<lambda>c. g c (cell_at cols r c)) cols"
  using assms
proof (induction cols r rule: list_induct2)
  case Nil
  then show ?case by simp
next
  case (Cons c cs x xs)
  have "cell_at (c # cs) (x # xs) c' = cell_at cs xs c'" if "c' \<in> set cs" for c'
    using that Cons.prems by (auto simp: cell_at_def)
  then have "map (\<lambda>c'. g c' (cell_at (c # cs) (x # xs) c')) cs =
             map (\<lambda>c'. g c' (cell_at cs xs c')) cs"
    by simp
  moreover have "cell_at (c # cs) (x # xs) c = x"
    by (simp add: cell_at_def)
  ultimately show ?case using Cons by simp
qed

lemma row_as_columns:
  assumes "length cols = length r" and "distinct cols"
  shows "map (cell_at cols r) cols = r"
proof -
  have "map (\<lambda>(l, x). x) (zip cols r) = r"
    using assms(1) by (induction cols r rule: list_induct2) simp_all
  then show ?thesis
    using zip_as_columns [OF assms, of "\<lambda>l x. x"] by simp
qed

lemma columns_tagged:
  "columns (tagged tag df) =
     (if tag_column \<in> set (columns df) then columns df else columns df @ [tag_column])"
  by (simp add: tagged_def set_column_def)

lemma tag_column_tagged: "tag_column \<in> set (columns (tagged tag df))"
  by (simp add: columns_tagged)

lemma columns_subset_tagged: "set (columns df) \<subseteq> set (columns (tagged tag df))"
  by (auto simp: columns_tagged)

lemma rows_tagged:
  assumes "wf_df df"
  shows "rows (tagged tag df) = map (carried (columns (tagged tag df)) tag df) (rows df)"
proof (cases "tag_column \<in> set (columns df)")
  case True
  have "map (\<lambda>(l, x). if l = tag_column then tag else x) (zip (columns df) r) =
        carried (columns df) tag df r" if "r \<in> set (rows df)" for r
  proof -
    have "length (columns df) = length r"
      using assms that by (auto simp: wf_df_def list_all_iff)
    moreover have "distinct (columns df)" using assms by (simp add: wf_df_def)
    ultimately show ?thesis
      by (simp add: zip_as_columns [where g = "\<lambda>l x. if l = tag_column then tag else x"]
          carried_def)
  qed
  then show ?thesis using True
    by (simp add: tagged_def set_column_def)
next
  case False
  have "r @ [tag] = carried (columns df @ [tag_column]) tag df r" if "r \<in> set (rows df)" for r
  proof -
    have len: "length (columns df) = length r"
      using assms that by (auto simp: wf_df_def list_all_iff)
    have dist: "distinct (columns df)" using assms by (simp add: wf_df_def)
    have "map (\<lambda>c. if c = tag_column then tag else cell_at (columns df) r c) (columns df) =
          map (cell_at (columns df) r) (columns df)"
      using False by (intro map_cong) auto
    then show ?thesis
      by (simp add: carried_def row_as_columns [OF len dist])
  qed
  then show ?thesis using False
    by (simp add: tagged_def set_column_def)
qed

lemma tag_of_carried:
  "tag_column \<in> set cols \<Longrightarrow> cell_at cols (carried cols tag df r) tag_column = tag"
  by (simp add: carried_def cell_at_map)

lemma reindex_carried:
  assumes "tag_column \<in> set cols" and "set (columns df) \<subseteq> set cols"
  shows "reindex_row cols cols' (carried cols tag df r) = carried cols' tag df r"
proof -
  have "cell_at cols (carried cols tag df r) c =
        (if c = tag_column then tag else cell_at (columns df) r c)" for c
  proof (cases "c \<in> set cols")
    case True
    then show ?thesis by (simp add: carried_def cell_at_map)
  next
    case False
    then have "c \<noteq> tag_column" "c \<notin> set (columns df)" using assms by auto
    then show ?thesis using False by (simp add: carried_def cell_at_map cell_at_absent)
  qed
  then show ?thesis by (simp add: reindex_row_def carried_def)
qed

lemma distinct_tagged: "distinct (columns df) \<Longrightarrow> distinct (columns (tagged tag df))"
  by (simp add: columns_tagged)

lemma cast_cell_id [simp]: "cast_cell (\<lambda>i. i) x = x"
  by (simp add: cast_cell_def split: cell.splits)

lemma cast_row_id [simp]: "cast_row (\<lambda>j i. i) r = r"
proof -
  have "map (\<lambda>(j, x). x) (enumerate n r) = r" for n
    by (induction r arbitrary: n) simp_all
  then show ?thesis by (simp add: cast_row_def)
qed

lemma cell_at_cast:
  "\<exists>j. cell_at cols (map (\<lambda>(j, x). cast_cell (cast j) x) (enumerate n r)) c =
        cast_cell (cast j) (cell_at cols r c)"
proof (induction cols arbitrary: r n)
  case Nil
  then show ?case by (simp add: cell_at_def cast_cell_def)
next
  case (Cons l cols)
  show ?case
  proof (cases r)
    case Nil
    then show ?thesis by (simp add: cell_at_def cast_cell_def)
  next
    case (Cons x xs)
    show ?thesis
    proof (cases "c = l")
      case True
      then show ?thesis using Cons by (auto simp: cell_at_def)
    next
      case False
      obtain j where "cell_at cols (map (\<lambda>(j, x). cast_cell (cast j) x) (enumerate (Suc n) xs)) c =
          cast_cell (cast j) (cell_at cols xs c)"
        using Cons.IH by blast
      then show ?thesis using False Cons by (auto simp: cell_at_def)
    qed
  qed
qed

lemma cell_at_cast_row_text:
  assumes "cell_at cols r c = StrC s"
  shows "cell_at cols (cast_row cast r) c = StrC s"
proof -
  obtain j where "cell_at cols (cast_row cast r) c = cast_cell (cast j) (cell_at cols r c)"
    using cell_at_cast [of cols cast 0 r c] by (auto simp: cast_row_def)
  then show ?thesis by (simp add: assms cast_cell_def)
qed

lemma tag_of_cast_carried:
  assumes "tag_column \<in> set cols"
  shows "cell_at cols (cast_row cast (carried cols (StrC s) df r)) tag_column = StrC s"
  by (rule cell_at_cast_row_text) (rule tag_of_carried [OF assms])

lemma rows_concat_tagged:
  assumes "wf_df a" and "wf_df b"
  shows "rows (concat_frames cast (tagged ta a) (tagged tb b)) =
     map (\<lambda>x. cast_row cast
            (carried (columns (concat_frames cast (tagged ta a) (tagged tb b))) ta a x)) (rows a) @
     map (\<lambda>x. cast_row cast
            (carried (columns (concat_frames cast (tagged ta a) (tagged tb b))) tb b x)) (rows b)"
proof (cases "columns (tagged ta a) = columns (tagged tb b)")
  case True
  then show ?thesis
    using rows_tagged [OF assms(1), of ta] rows_tagged [OF assms(2), of tb]
    by (simp add: concat_frames_def comp_def)
next
  case False
  then show ?thesis
    by (simp add: concat_frames_def Let_def rows_tagged [OF assms(1)] rows_tagged [OF assms(2)]
        reindex_carried tag_column_tagged columns_subset_tagged comp_def)
qed

lemma tag_column_concat:
  "tag_column \<in> set (columns (concat_frames cast (tagged ta a) (tagged tb b)))"
  by (simp add: concat_frames_def Let_def tag_column_tagged)

lemma combined_rows_both:
  assumes "a < length (heap w)" "b < length (heap w)" "wf_df (deref w a)" "wf_df (deref w b)"
    and "result_frame (combined_data (Some a) (Some b) w) = Some d"
  shows "mset (rows d) =
           rows_from (conversion w (Some a) (Some b)) (columns d) behandlungsort_tag w (Some a) +
           rows_from (conversion w (Some a) (Some b)) (columns d) wohnort_tag w (Some b)"
    and "tag_column \<in> set (columns d)"
proof -
  let ?c = "concat_frames (conversion w (Some a) (Some b))
              (tagged behandlungsort_tag (deref w a)) (tagged wohnort_tag (deref w b))"
  have s: "sorted_frame (ties w) ?c = Inr d"
    by (rule combined_both_sorted [OF assms(1,2,5)])
  have cols: "columns d = columns ?c" by (rule sorted_frame_columns [OF s])
  have "mset (rows d) = mset (rows ?c)" by (rule sorted_frame_mset [OF s])
  then show "mset (rows d) =
           rows_from (conversion w (Some a) (Some b)) (columns d) behandlungsort_tag w (Some a) +
           rows_from (conversion w (Some a) (Some b)) (columns d) wohnort_tag w (Some b)"
    by (simp add: rows_concat_tagged [OF assms(3,4)] cols rows_from_def)
  show "tag_column \<in> set (columns d)" by (simp add: cols tag_column_concat)
qed

lemma combined_rows_one:
  assumes "only_input da db = Some (r, tag)" and "wf_df (deref w r)"
    and "result_frame (combined_data da db w) = Some d"
  shows "columns d = columns (tagged tag (deref w r))"
    and "mset (rows d) = mset (map (carried (columns d) tag (deref w r)) (rows (deref w r)))"
proof -
  have s: "sorted_frame (ties w) (tagged tag (deref w r)) = Inr d"
    using assms(1,3)
    by (auto simp: only_input_def combined_left_frame combined_right_frame sorted_case
        split: option.splits)
  show cols: "columns d = columns (tagged tag (deref w r))"
    by (rule sorted_frame_columns [OF s])
  have "mset (rows d) = mset (rows (tagged tag (deref w r)))" by (rule sorted_frame_mset [OF s])
  then show "mset (rows d) = mset (map (carried (columns d) tag (deref w r)) (rows (deref w r)))"
    by (simp add: rows_tagged [OF assms(2)] cols)
qed

lemma combined_rows:
  assumes "wf_input w da" and "wf_input w db"
    and "result_frame (combined_data da db w) = Some d"
  shows "tag_column \<in> set (columns d)"
    and "mset (rows d) = rows_from (conversion w da db) (columns d) behandlungsort_tag w da +
                         rows_from (conversion w da db) (columns d) wohnort_tag w db"
proof -
  have "tag_column \<in> set (columns d) \<and>
         mset (rows d) = rows_from (conversion w da db) (columns d) behandlungsort_tag w da +
                         rows_from (conversion w da db) (columns d) wohnort_tag w db"
  proof (cases da; cases db)
    fix a b assume "da = Some a" "db = Some b"
    then show ?thesis
      using assms combined_rows_both [of a w b d]
      by (simp add: wf_input_def)
  next
    fix a assume *: "da = Some a" "db = None"
    then have "only_input da db = Some (a, behandlungsort_tag)" by (simp add: only_input_def)
    from combined_rows_one [OF this _ assms(3)] assms(1) *
    show ?thesis
      by (simp add: wf_input_def rows_from_def conversion_def tag_column_tagged)
  next
    fix b assume *: "da = None" "db = Some b"
    then have "only_input da db = Some (b, wohnort_tag)" by (simp add: only_input_def)
    from combined_rows_one [OF this _ assms(3)] assms(2) *
    show ?thesis
      by (simp add: wf_input_def rows_from_def conversion_def tag_column_tagged)
  next
    assume "da = None" "db = None"
    then show ?thesis using assms(3) by (simp add: combined_none)
  qed
  then show "tag_column \<in> set (columns d)"
    and "mset (rows d) = rows_from (conversion w da db) (columns d) behandlungsort_tag w da +
                         rows_from (conversion w da db) (columns d) wohnort_tag w db"
    by simp_all
qed

text \<open>
  Claim C4. Every row of the combined dataset carries the provenance tag of the table it
  comes from. The dataset has the column \<open>Wohnort/Behandlungsort\<close>, and its rows
  are, up to their order, the rows of the treatment-location input, each carried over
  with the tag \<open>nach Behandlungsort\<close>, together with the rows of the
  residence-location input, each carried over with the tag \<open>nach Wohnort\<close>, numbers
  as \<^verbatim>\<open>pd.concat\<close> converts them; the provenance cell of a carried row is the tag
  it was carried with.
\<close>

theorem provenance_tags:
  assumes "wf_input w da" and "wf_input w db"
    and "result_frame (combined_data da db w) = Some d"
  shows "tag_column \<in> set (columns d) \<and>
         mset (rows d) = rows_from (conversion w da db) (columns d) behandlungsort_tag w da +
                         rows_from (conversion w da db) (columns d) wohnort_tag w db \<and>
         cell_at (columns d) (cast_row cast (carried (columns d) behandlungsort_tag df r))
           tag_column = behandlungsort_tag \<and>
         cell_at (columns d) (cast_row cast (carried (columns d) wohnort_tag df r))
           tag_column = wohnort_tag"
  using combined_rows [OF assms]
  by (simp add: tag_of_cast_carried behandlungsort_tag_def wohnort_tag_def)

theorem provenance_tags_witness:
  "wf_input world_big (Some 0) \<and> wf_input world_big (Some 1) \<and>
   result_frame (combined_data (Some 0) (Some 1) world_big) \<noteq> None \<and>
   mset (rows (the (result_frame (combined_data (Some 0) (Some 1) world_big)))) =
     {#[IntC 9007199254740992, behandlungsort_tag, NaN],
       [NaN, wohnort_tag, StrC ''Berlin'']#}"
proof -
  have wf: "wf_input world_big (Some 0)" "wf_input world_big (Some 1)"
    by (simp_all add: wf_input_def wf_df_def world_big_def world0_def table_big_def
        table_small_def deref_def)
  have a: "map (\<lambda>x. cast_row (conversion world_big (Some 0) (Some 1))
            (carried [''Wert'', ''Wohnort/Behandlungsort'', ''Bundesland'']
               behandlungsort_tag (deref world_big 0) x)) (rows (deref world_big 0)) =
        [[IntC 9007199254740992, behandlungsort_tag, NaN]]"
    by code_simp
  have b: "map (\<lambda>x. cast_row (conversion world_big (Some 0) (Some 1))
            (carried [''Wert'', ''Wohnort/Behandlungsort'', ''Bundesland'']
               wohnort_tag (deref world_big 1) x)) (rows (deref world_big 1)) =
        [[NaN, wohnort_tag, StrC ''Berlin'']]"
    by code_simp
  have r: "result_frame (combined_data (Some 0) (Some 1) world_big) \<noteq> None"
    by (simp only: example_big) simp
  have "mset (rows (the (result_frame (combined_data (Some 0) (Some 1) world_big)))) =
     rows_from (conversion world_big (Some 0) (Some 1))
       [''Wert'', ''Wohnort/Behandlungsort'', ''Bundesland''] behandlungsort_tag world_big (Some 0) +
     rows_from (conversion world_big (Some 0) (Some 1))
       [''Wert'', ''Wohnort/Behandlungsort'', ''Bundesland''] wohnort_tag world_big (Some 1)"
    using provenance_tags [OF wf example_big, THEN conjunct2, THEN conjunct1]
    by (simp only: example_big option.sel dataframe.simps)
  then have "mset (rows (the (result_frame (combined_data (Some 0) (Some 1) world_big)))) =
     {#[IntC 9007199254740992, behandlungsort_tag, NaN],
       [NaN, wohnort_tag, StrC ''Berlin'']#}"
    by (simp only: rows_from_def option.case a b) simp
  then show ?thesis using wf r by (intro conjI)
qed

subsection \<open>Order of the rows\<close>

lemma rank_le_cell_le:
  assumes "sort_rank x \<le> sort_rank y" and "\<not> (is_int x \<and> is_str y)" and "\<not> (is_str x \<and> is_int y)"
  shows "cell_le x y"
  using assms
  by (cases x; cases y) (auto simp: sort_rank_def is_int_def is_str_def less_eq_prod_def)

lemma sorted_rank_cell_le:
  assumes "comparable ks" and "sorted (map sort_rank ks)"
  shows "sorted_wrt cell_le ks"
proof -
  have "cell_le x y" if "x \<in> set ks" "y \<in> set ks" "sort_rank x \<le> sort_rank y" for x y
    using that assms(1)
    by (intro rank_le_cell_le) (auto simp: comparable_def list_ex_iff)
  moreover have "sorted_wrt (\<lambda>x y. sort_rank x \<le> sort_rank y) ks"
    using assms(2) by (simp add: sorted_map)
  ultimately show ?thesis
    by (rule_tac sorted_wrt_mono_rel [where P = "\<lambda>x y. sort_rank x \<le> sort_rank y"]) auto
qed

lemma set_scramble: "set (scramble ks xs) = set xs"
  using mset_scramble [of ks xs] by (rule mset_eq_setD)

lemma sorted_frame_sorted:
  assumes "sorted_frame ts df = Inr d" and "''Jahr'' \<in> set (columns d)"
  shows "sorted_wrt cell_le (column d ''Jahr'')"
proof -
  have jahr: "''Jahr'' \<in> set (columns df)"
    using assms sorted_frame_columns by fastforce
  let ?k = "\<lambda>r. cell_at (columns df) r ''Jahr''"
  from assms(1) jahr have cmp: "comparable (column df ''Jahr'')"
    and d: "d = df\<lparr>rows := sort_key (\<lambda>r. sort_rank (?k r)) (scramble ts (rows df))\<rparr>"
    by (auto simp: sorted_frame_def sort_values_frame_def split: if_splits)
  have col: "column d ''Jahr'' = map ?k (sort_key (\<lambda>r. sort_rank (?k r)) (scramble ts (rows df)))"
    by (simp add: d column_def)
  have "set (column d ''Jahr'') = ?k ` set (rows df)"
    by (simp only: col set_map set_sort set_scramble)
  then have "set (column d ''Jahr'') = set (column df ''Jahr'')"
    by (simp add: column_def)
  then have "comparable (column d ''Jahr'')"
    using cmp by (simp add: comparable_def list_ex_iff)
  moreover have "sorted (map sort_rank (column d ''Jahr''))"
    using sorted_sort_key [of "\<lambda>r. sort_rank (?k r)" "scramble ts (rows df)"]
    by (simp add: col comp_def)
  ultimately show ?thesis by (rule sorted_rank_cell_le)
qed

lemma combined_data_ends:
  "(\<exists>c w'. combined_data da db w = sort_by_jahr c w') \<or>
   (\<exists>w'. combined_data da db w = NoData w') \<or>
   (\<exists>e w'. combined_data da db w = Raised e w')"
  by (simp add: combined_data_def Let_def split: option.splits prod.splits sum.splits) blast

lemma combined_is_sorted_frame:
  assumes "result_frame (combined_data da db w) = Some d"
  shows "\<exists>ts df. sorted_frame ts df = Inr d"
proof -
  obtain c w' where "combined_data da db w = sort_by_jahr c w'"
    using combined_data_ends [of da db w] assms by auto
  then have "(case sorted_frame (ties w') (deref w' c) of Inl e \<Rightarrow> None | Inr d \<Rightarrow> Some d) = Some d"
    using assms by (simp add: sort_by_jahr_frame)
  then show ?thesis by (auto split: sum.splits)
qed

text \<open>
  Claim C6. Whenever the combined dataset has the column \<open>Jahr\<close>, the rows that
  reach the write are in ascending order of that column: numbers and texts are
  non-decreasing, and rows without a year come last.
\<close>

theorem sorted_by_year:
  assumes "result_frame (combined_data da db w) = Some d" and "''Jahr'' \<in> set (columns d)"
  shows "sorted_wrt cell_le (column d ''Jahr'')"
proof -
  obtain ts df where "sorted_frame ts df = Inr d"
    using combined_is_sorted_frame [OF assms(1)] by blast
  then show ?thesis using assms(2) by (rule sorted_frame_sorted)
qed

theorem sorted_by_year_witness:
  "result_frame (combined_data (Some 0) (Some 1) world_ties) \<noteq> None \<and>
   ''Jahr'' \<in> set (columns (the (result_frame (combined_data (Some 0) (Some 1) world_ties)))) \<and>
   column (the (result_frame (combined_data (Some 0) (Some 1) world_ties))) ''Jahr'' =
     [IntC 2005, IntC 2005, IntC 2006] \<and>
   sorted_wrt cell_le [IntC 2005, IntC 2005, IntC 2006]"
proof -
  have j: "''Jahr'' \<in> set (columns (the (result_frame (combined_data (Some 0) (Some 1) world_ties))))"
    by (simp add: example_ties del: One_nat_def)
  have c: "column (the (result_frame (combined_data (Some 0) (Some 1) world_ties))) ''Jahr'' =
     [IntC 2005, IntC 2005, IntC 2006]"
    by (simp add: example_ties column_def cell_at_def del: One_nat_def)
  have "result_frame (combined_data (Some 0) (Some 1) world_ties) =
        Some (the (result_frame (combined_data (Some 0) (Some 1) world_ties)))"
    by (simp add: example_ties del: One_nat_def)
  from sorted_by_year [OF this j]
  have "sorted_wrt cell_le [IntC 2005, IntC 2005, IntC 2006]"
    by (simp only: c)
  then show ?thesis using j c by (simp add: example_ties del: One_nat_def)
qed

text \<open>
  Claim C10. If the combined dataset has no column \<open>Jahr\<close>, nothing is sorted: with
  both inputs present the dataset is the concatenation itself, all rows of the
  treatment-location input in their order followed by all rows of the
  residence-location input in their order, numbers as \<^verbatim>\<open>pd.concat\<close> converts them.
\<close>

theorem concatenation_order:
  assumes "a < length (heap w)" and "b < length (heap w)"
    and "wf_df (deref w a)" and "wf_df (deref w b)"
    and "result_frame (combined_data (Some a) (Some b) w) = Some d"
    and "''Jahr'' \<notin> set (columns d)"
    and "cast = conversion w (Some a) (Some b)"
  shows "rows d =
           map (\<lambda>x. cast_row cast (carried (columns d) behandlungsort_tag (deref w a) x))
             (rows (deref w a)) @
           map (\<lambda>x. cast_row cast (carried (columns d) wohnort_tag (deref w b) x))
             (rows (deref w b)) \<and>
         d = concat_frames cast
               (tagged behandlungsort_tag (deref w a)) (tagged wohnort_tag (deref w b))"
proof -
  let ?c = "concat_frames cast
              (tagged behandlungsort_tag (deref w a)) (tagged wohnort_tag (deref w b))"
  have s: "sorted_frame (ties w) ?c = Inr d"
    unfolding assms(7) by (rule combined_both_sorted [OF assms(1,2,5)])
  have "columns d = columns ?c" by (rule sorted_frame_columns [OF s])
  then have "''Jahr'' \<notin> set (columns ?c)" using assms(6) by simp
  then have "sorted_frame (ties w) ?c = Inr ?c" by (rule sorted_frame_unsorted)
  with s have "d = ?c" by simp
  then show ?thesis using rows_concat_tagged [OF assms(3,4), of cast] by simp
qed

theorem concatenation_order_witness:
  "0 < length (heap world_big) \<and> 1 < length (heap world_big) \<and>
   wf_df (deref world_big 0) \<and> wf_df (deref world_big 1) \<and>
   result_frame (combined_data (Some 0) (Some 1) world_big) \<noteq> None \<and>
   ''Jahr'' \<notin> set (columns (the (result_frame (combined_data (Some 0) (Some 1) world_big)))) \<and>
   rows (the (result_frame (combined_data (Some 0) (Some 1) world_big))) =
     [[IntC 9007199254740992, behandlungsort_tag, NaN], [NaN, wohnort_tag, StrC ''Berlin'']]"
proof -
  have h: "0 < length (heap world_big)" "1 < length (heap world_big)"
    "wf_df (deref world_big 0)" "wf_df (deref world_big 1)"
    by (simp_all add: world_big_def world0_def wf_df_def deref_def table_big_def
        table_small_def)
  have j: "''Jahr'' \<notin> set (columns
             \<lparr>columns = [''Wert'', ''Wohnort/Behandlungsort'', ''Bundesland''],
              rows = [[IntC 9007199254740992, StrC ''nach Behandlungsort'', NaN],
                      [NaN, StrC ''nach Wohnort'', StrC ''Berlin'']]\<rparr>)"
    by simp
  have a: "map (\<lambda>x. cast_row (conversion world_big (Some 0) (Some 1))
            (carried [''Wert'', ''Wohnort/Behandlungsort'', ''Bundesland'']
               behandlungsort_tag (deref world_big 0) x)) (rows (deref world_big 0)) =
        [[IntC 9007199254740992, behandlungsort_tag, NaN]]"
    by code_simp
  have b: "map (\<lambda>x. cast_row (conversion world_big (Some 0) (Some 1))
            (carried [''Wert'', ''Wohnort/Behandlungsort'', ''Bundesland'']
               wohnort_tag (deref world_big 1) x)) (rows (deref world_big 1)) =
        [[NaN, wohnort_tag, StrC ''Berlin'']]"
    by code_simp
  note order = concatenation_order [OF h example_big j refl, THEN conjunct1]
  have "rows (the (result_frame (combined_data (Some 0) (Some 1) world_big))) =
     [[IntC 9007199254740992, behandlungsort_tag, NaN], [NaN, wohnort_tag, StrC ''Berlin'']]"
    using order by (simp only: example_big option.sel dataframe.simps a b append.simps)
  moreover have "result_frame (combined_data (Some 0) (Some 1) world_big) \<noteq> None"
    by (simp only: example_big) simp
  moreover have "''Jahr'' \<notin> set (columns (the (result_frame
      (combined_data (Some 0) (Some 1) world_big))))"
    by (simp only: example_big option.sel) (rule j)
  ultimately show ?thesis using h by (intro conjI)
qed

subsection \<open>The written file\<close>

lemma sort_by_jahr_keeps:
  "unwritable (result_world (sort_by_jahr c w)) = unwritable w"
  "files (result_world (sort_by_jahr c w)) = files w"
  "number_text (result_world (sort_by_jahr c w)) = number_text w"
  "quotes_cr (result_world (sort_by_jahr c w)) = quotes_cr w"
  by (auto simp: sort_by_jahr_def sort_values_def alloc_def split: sum.splits)

lemma combined_data_keeps:
  "unwritable (result_world (combined_data da db w)) = unwritable w"
  "files (result_world (combined_data da db w)) = files w"
  "number_text (result_world (combined_data da db w)) = number_text w"
  "quotes_cr (result_world (combined_data da db w)) = quotes_cr w"
  by (cases da; cases db;
      simp add: combined_data_def Let_def tag_copy_Some tag_copy_None pd_concat_def alloc_def
        sort_by_jahr_keeps)+

lemma combine_and_save_writes:
  assumes "result_frame (combined_data da db w) = Some d" and "out \<notin> set (unwritable w)"
  shows "files (snd (combine_and_save_data da db out w)) out =
           Some \<lparr>file_encoding = UTF8,
                 content = to_csv_text CHR '';'' (quotes_cr w) (number_text w) d\<rparr>"
proof -
  obtain c w1 where c: "combined_data da db w = Combined c w1" and d: "d = deref w1 c"
    using assms(1) by (cases "combined_data da db w") auto
  have "unwritable w1 = unwritable w" and n: "number_text w1 = number_text w"
    "quotes_cr w1 = quotes_cr w"
    using combined_data_keeps(1,3,4) [of da db w] by (simp_all add: c)
  then have "out \<notin> set (unwritable w1)" using assms(2) by simp
  then show ?thesis
    by (simp add: combine_and_save_data_def c d n to_csv_def deref_def
        split: prod.splits option.splits)
qed

lemma carried_keeps_cell:
  assumes "c \<in> set cols" and "c \<noteq> tag_column"
  shows "cell_at cols (carried cols tag df x) c = cell_at (columns df) x c"
  using assms by (simp add: carried_def cell_at_map)

text \<open>
  Claim C5. If exactly one input is present and the dataset is saved, the file holds the
  CSV text of a dataset that has the columns of that table plus the provenance column,
  as many rows as the table, and, up to their order, exactly the table's rows: each with
  the table's provenance tag and with the table's value in every other column of the
  table.
\<close>

theorem single_input_saved:
  assumes "only_input da db = Some (r, tag)" and "wf_input w (Some r)"
    and "result_frame (combined_data da db w) = Some d"
    and "out \<notin> set (unwritable w)"
  shows "files (snd (combine_and_save_data da db out w)) out =
           Some \<lparr>file_encoding = UTF8,
                 content = to_csv_text CHR '';'' (quotes_cr w) (number_text w) d\<rparr> \<and>
         columns d = columns (tagged tag (deref w r)) \<and>
         len d = len (deref w r) \<and>
         mset (rows d) = mset (map (carried (columns d) tag (deref w r)) (rows (deref w r))) \<and>
         cell_at (columns d) (carried (columns d) tag (deref w r) x) tag_column = tag \<and>
         (c \<in> set (columns (deref w r)) \<and> c \<noteq> tag_column \<longrightarrow>
            cell_at (columns d) (carried (columns d) tag (deref w r) x) c =
            cell_at (columns (deref w r)) x c)"
proof -
  have wf: "wf_df (deref w r)" using assms(2) by (simp add: wf_input_def)
  note one = combined_rows_one [OF assms(1) wf assms(3)]
  have "size (mset (rows d)) = size (mset (rows (deref w r)))"
    by (simp only: one(2)) simp
  then have n: "len d = len (deref w r)" by (simp add: len_def)
  have t: "tag_column \<in> set (columns d)" by (simp add: one(1) tag_column_tagged)
  have k: "cell_at (columns d) (carried (columns d) tag (deref w r) x) c =
           cell_at (columns (deref w r)) x c"
    if "c \<in> set (columns (deref w r))" "c \<noteq> tag_column"
  proof -
    have "c \<in> set (columns d)" using that(1) columns_subset_tagged by (auto simp: one(1))
    then show ?thesis using that(2) by (rule carried_keeps_cell)
  qed
  show ?thesis
    using combine_and_save_writes [OF assms(3,4)] one n tag_of_carried [OF t] k by simp
qed

theorem single_input_saved_witness:
  "only_input (Some 0) None = Some (0, behandlungsort_tag) \<and> wf_input world0 (Some 0) \<and>
   result_frame (combined_data (Some 0) None world0) \<noteq> None \<and>
   ''out.csv'' \<notin> set (unwritable world0) \<and>
   ''Jahr'' \<in> set (columns (deref world0 0)) \<and> ''Jahr'' \<noteq> tag_column \<and>
   (\<exists>t. files (snd (combine_and_save_data (Some 0) None ''out.csv'' world0)) ''out.csv'' =
          Some \<lparr>file_encoding = UTF8, content = t\<rparr>) \<and>
   len (the (result_frame (combined_data (Some 0) None world0))) = 2"
proof -
  have o: "only_input (Some 0) None = Some (0, behandlungsort_tag)"
    by (simp add: only_input_def)
  have wf: "wf_input world0 (Some 0)"
    by (simp add: wf_input_def wf_df_def world0_def table_a_def deref_def)
  have u: "''out.csv'' \<notin> set (unwritable world0)" by (simp add: world0_def)
  have j: "''Jahr'' \<in> set (columns (deref world0 0))" "''Jahr'' \<noteq> tag_column"
    by (simp_all add: world0_def table_a_def deref_def tag_column_def)
  have l: "len (deref world0 0) = 2"
    by (simp add: world0_def table_a_def deref_def len_def)
  note saved = single_input_saved [OF o wf example_single u]
  have f: "\<exists>t. files (snd (combine_and_save_data (Some 0) None ''out.csv'' world0)) ''out.csv'' =
          Some \<lparr>file_encoding = UTF8, content = t\<rparr>"
    using saved [THEN conjunct1] by (rule exI)
  have "len (the (result_frame (combined_data (Some 0) None world0))) = len (deref world0 0)"
    using saved [THEN conjunct2, THEN conjunct2, THEN conjunct1]
    by (simp only: example_single option.sel)
  then have n: "len (the (result_frame (combined_data (Some 0) None world0))) = 2"
    by (simp only: l)
  have r: "result_frame (combined_data (Some 0) None world0) \<noteq> None"
    by (simp only: example_single) simp
  show ?thesis using o wf r u j f n by (intro conjI)
qed

subsection \<open>Round trip of the written file\<close>

lemma chars_differ [simp]:
  "quote_char \<noteq> newline" "newline \<noteq> quote_char"
  "quote_char \<noteq> carriage_return" "carriage_return \<noteq> quote_char"
  "newline \<noteq> carriage_return" "carriage_return \<noteq> newline"
  "CHR '';'' \<noteq> quote_char" "CHR '';'' \<noteq> newline" "CHR '';'' \<noteq> carriage_return"
  by (simp_all add: quote_char_def newline_def carriage_return_def)

lemma push_field: "foldr push f (([] # fs) # rs) = (f # fs) # rs"
  by (induction f) (simp_all add: push_def)

lemma parse_quoted_body:
  "csv_parse sep Quoted (escape f @ quote_char # rest) =
     foldr push f (csv_parse sep QuoteSeen rest)"
  by (induction f) simp_all

lemma parse_unquoted_body:
  "\<forall>c\<in>set f. \<not> special sep True c \<Longrightarrow>
   csv_parse sep Unquoted (f @ rest) = foldr push f (csv_parse sep Unquoted rest)"
  by (induction f) (simp_all add: special_def)

lemma parse_end_of_field:
  assumes "sep \<noteq> quote_char" and "sep \<noteq> newline"
  shows "csv_parse sep st (sep # rest) =
           (if st = Quoted then push sep (csv_parse sep Quoted rest)
            else new_field (csv_parse sep FieldStart rest))"
    and "st \<noteq> AfterCR \<Longrightarrow> csv_parse sep st (newline # rest) =
           (if st = Quoted then push newline (csv_parse sep Quoted rest)
            else [[]] # csv_parse sep RecordStart rest)"
  using assms by (cases st; simp)+

text \<open>A field is read back as written when the writer quotes carriage returns or the
  field has none.\<close>

lemma parse_field:
  assumes "sep \<noteq> quote_char" and "sep \<noteq> newline"
    and "st = RecordStart \<or> st = FieldStart" and "d = sep \<or> d = newline"
    and "qcr \<or> carriage_return \<notin> set f"
  shows "csv_parse sep st (csv_field sep qcr f @ d # rest) =
           foldr push f (csv_parse sep Unquoted (d # rest))"
proof (cases "list_ex (special sep qcr) f")
  case True
  have "csv_parse sep st (quote_char # escape f @ quote_char # d # rest) =
        csv_parse sep Quoted (escape f @ quote_char # d # rest)"
    using assms(3) by auto
  also have "\<dots> = foldr push f (csv_parse sep QuoteSeen (d # rest))"
    by (rule parse_quoted_body)
  also have "csv_parse sep QuoteSeen (d # rest) = csv_parse sep Unquoted (d # rest)"
    using assms(1,2,4) by (auto simp: parse_end_of_field)
  finally show ?thesis using True by (simp add: csv_field_def)
next
  case False
  then have plain: "\<forall>c\<in>set f. \<not> special sep True c"
    using assms(5) by (auto simp: list_ex_iff special_def)
  show ?thesis
  proof (cases f)
    case Nil
    then show ?thesis using False assms(1-4) by (auto simp: csv_field_def parse_end_of_field)
  next
    case (Cons c f')
    then have c: "\<not> special sep True c" and f': "\<forall>c\<in>set f'. \<not> special sep True c"
      using plain by simp_all
    have "csv_parse sep st (c # f' @ d # rest) = push c (csv_parse sep Unquoted (f' @ d # rest))"
      using c assms(3) by (auto simp: special_def)
    then show ?thesis
      using False Cons parse_unquoted_body [OF f'] by (simp add: csv_field_def)
  qed
qed

lemma parse_join:
  assumes "sep \<noteq> quote_char" and "sep \<noteq> newline"
    and "fs \<noteq> []" and "st = RecordStart \<or> st = FieldStart"
    and "qcr \<or> (\<forall>f\<in>set fs. carriage_return \<notin> set f)"
  shows "csv_parse sep st (join_fields sep (map (csv_field sep qcr) fs) @ newline # rest) =
           fs # csv_parse sep RecordStart rest"
  using assms(3,4,5)
proof (induction fs arbitrary: st rule: list_nonempty_induct)
  case (single f)
  have "qcr \<or> carriage_return \<notin> set f" using single.prems(2) by auto
  then show ?case
    using parse_field [OF assms(1,2) single.prems(1), of newline qcr f rest] assms(1,2)
    by (simp add: parse_end_of_field push_field)
next
  case (cons f fs)
  obtain g gs where fs: "fs = g # gs" using cons.hyps by (cases fs) auto
  have f: "qcr \<or> carriage_return \<notin> set f"
    and rest: "qcr \<or> (\<forall>f\<in>set fs. carriage_return \<notin> set f)"
    using cons.prems(2) by auto
  have "csv_parse sep st (csv_field sep qcr f @ sep #
          join_fields sep (map (csv_field sep qcr) fs) @ newline # rest) =
        foldr push f (csv_parse sep Unquoted
          (sep # join_fields sep (map (csv_field sep qcr) fs) @ newline # rest))"
    using parse_field [OF assms(1,2) cons.prems(1), of sep qcr f] f by simp
  also have "\<dots> = foldr push f (new_field
          (csv_parse sep FieldStart
             (join_fields sep (map (csv_field sep qcr) fs) @ newline # rest)))"
    using assms(1,2) by (simp add: parse_end_of_field)
  also have "\<dots> = foldr push f (new_field (fs # csv_parse sep RecordStart rest))"
    using cons.IH [OF _ rest, of FieldStart] by simp
  also have "\<dots> = (f # fs) # csv_parse sep RecordStart rest"
    by (simp add: new_field_def push_field)
  finally show ?case by (simp add: fs)
qed

lemma parse_record:
  assumes "sep \<noteq> quote_char" and "sep \<noteq> newline" and "fs \<noteq> []"
    and "qcr \<or> (\<forall>f\<in>set fs. carriage_return \<notin> set f)"
  shows "csv_parse sep RecordStart (csv_record sep qcr fs @ rest) =
           fs # csv_parse sep RecordStart rest"
proof (cases "fs = [[]]")
  case True
  then show ?thesis using assms(1,2) by (simp add: csv_record_def)
next
  case False
  then show ?thesis
    using parse_join [OF assms(1-3) _ assms(4), of RecordStart rest]
    by (simp add: csv_record_def)
qed

lemma parse_records:
  assumes "sep \<noteq> quote_char" and "sep \<noteq> newline" and "\<forall>r\<in>set recs. r \<noteq> []"
    and "qcr \<or> cr_free recs"
  shows "csv_parse sep RecordStart (concat (map (csv_record sep qcr) recs)) = recs"
  using assms(3,4)
proof (induction recs)
  case Nil
  then show ?case by simp
next
  case (Cons r recs)
  have r: "r \<noteq> []" and cr: "qcr \<or> (\<forall>f\<in>set r. carriage_return \<notin> set f)"
    and rest: "\<forall>r\<in>set recs. r \<noteq> []" "qcr \<or> cr_free recs"
    using Cons.prems by (auto simp: cr_free_def list_all_iff)
  show ?case
    using parse_record [OF assms(1,2) r cr] Cons.IH [OF rest] by simp
qed

lemma parse_to_csv_text:
  assumes "sep \<noteq> quote_char" and "sep \<noteq> newline"
    and "columns df \<noteq> []" and "\<forall>r\<in>set (rows df). r \<noteq> []"
    and "qcr \<or> cr_free (columns df # map (row_texts (fmt df) (columns df)) (rows df))"
  shows "csv_parse sep RecordStart (to_csv_text sep qcr fmt df) =
           columns df # map (row_texts (fmt df) (columns df)) (rows df)"
proof -
  have shape: "to_csv_text sep qcr fmt df =
        concat (map (csv_record sep qcr)
          (columns df # map (row_texts (fmt df) (columns df)) (rows df)))"
    by (simp add: to_csv_text_def comp_def)
  have "row_texts (fmt df) (columns df) r \<noteq> []" if "r \<in> set (rows df)" for r
    using assms(3,4) that by (cases r; cases "columns df") (auto simp: row_texts_def)
  then have "\<forall>r\<in>set (columns df # map (row_texts (fmt df) (columns df)) (rows df)). r \<noteq> []"
    using assms(3) by auto
  then show ?thesis
    unfolding shape by (rule parse_records [OF assms(1,2) _ assms(5)])
qed

lemma rows_from_length: "r \<in># rows_from cast cols tag w d \<Longrightarrow> length r = length cols"
  by (auto simp: rows_from_def carried_def split: option.splits)

lemma combined_rectangular:
  assumes "wf_input w da" and "wf_input w db"
    and "result_frame (combined_data da db w) = Some d"
    and "r \<in> set (rows d)"
  shows "length r = length (columns d)"
proof -
  have "r \<in># mset (rows d)" using assms(4) by simp
  then have "r \<in># rows_from (conversion w da db) (columns d) behandlungsort_tag w da \<or>
             r \<in># rows_from (conversion w da db) (columns d) wohnort_tag w db"
    by (simp only: combined_rows(2) [OF assms(1-3)]) simp
  then show ?thesis using rows_from_length by blast
qed

text \<open>
  Claim C7, counterexample. The csv writer of Python 3.11.2 does not quote a carriage
  return when the line terminator is a line feed. With such a writer, a table of two
  rows whose first row has the text \<^verbatim>\<open>Saar\rland\<close> is saved as a file that is read back
  as four records: the carriage return ends the record in the middle of the field. The
  dataset has two rows, so the records read back are not the header and one record per
  row, and the second record has one field where the dataset has three columns.
\<close>

theorem carriage_return_splits_record:
  "wf_input world_cr (Some 0) \<and> wf_input world_cr None \<and>
   \<not> quotes_cr world_cr \<and>
   ''GAC_Daten_Roh.csv'' \<notin> set (unwritable world_cr) \<and>
   result_frame (combined_data (Some 0) None world_cr) =
     Some \<lparr>columns = [''Bundesland'', ''Wert'', ''Wohnort/Behandlungsort''],
           rows = [[StrC (''Saar'' @ carriage_return # ''land''), IntC 1,
                    StrC ''nach Behandlungsort''],
                   [StrC ''Berlin'', IntC 2, StrC ''nach Behandlungsort'']]\<rparr> \<and>
   fst (combine_and_save_data (Some 0) None ''GAC_Daten_Roh.csv'' world_cr) \<and>
   csv_parse CHR '';'' RecordStart
     (content (the (files (snd (combine_and_save_data (Some 0) None
        ''GAC_Daten_Roh.csv'' world_cr)) ''GAC_Daten_Roh.csv''))) =
     [[''Bundesland'', ''Wert'', ''Wohnort/Behandlungsort''],
      [''Saar''],
      [''land'', ''1'', ''nach Behandlungsort''],
      [''Berlin'', ''2'', ''nach Behandlungsort'']] \<and>
   length (csv_parse CHR '';'' RecordStart
     (content (the (files (snd (combine_and_save_data (Some 0) None
        ''GAC_Daten_Roh.csv'' world_cr)) ''GAC_Daten_Roh.csv'')))) \<noteq>
     1 + len (the (result_frame (combined_data (Some 0) None world_cr)))"
  by code_simp

text \<open>
  Claim C7, amended. When the dataset is saved, the file is written as UTF-8 and its text
  is the CSV text of the combined dataset with the semicolon as separator: the header
  record with the column labels, then one record per row, and no index column. If the
  csv writer quotes carriage returns, or no column label and no cell text of the dataset
  contains one, reading that text back with the same separator gives the header and the
  texts of the rows: one record more than the dataset has rows, the dataset's column
  labels as the first record, and as many fields in every record as the dataset has
  columns.
\<close>

theorem csv_round_trip:
  assumes "wf_input w da" and "wf_input w db"
    and "result_frame (combined_data da db w) = Some d"
    and "out \<notin> set (unwritable w)"
    and "t = to_csv_text CHR '';'' (quotes_cr w) (number_text w) d"
    and "quotes_cr w \<or> cr_free (written_fields w d)"
  shows "files (snd (combine_and_save_data da db out w)) out =
           Some \<lparr>file_encoding = UTF8, content = t\<rparr> \<and>
         csv_parse CHR '';'' RecordStart t =
           columns d # map (row_texts (number_text w d) (columns d)) (rows d) \<and>
         length (csv_parse CHR '';'' RecordStart t) = 1 + len d \<and>
         set (hd (csv_parse CHR '';'' RecordStart t)) = set (columns d) \<and>
         list_all (\<lambda>r. length r = length (columns d)) (csv_parse CHR '';'' RecordStart t)"
proof -
  have cols: "columns d \<noteq> []"
    using combined_rows(1) [OF assms(1-3)] by auto
  have rect: "length r = length (columns d)" if "r \<in> set (rows d)" for r
    using combined_rectangular [OF assms(1-3) that] .
  then have "\<forall>r\<in>set (rows d). r \<noteq> []" using cols by fastforce
  then have parse: "csv_parse CHR '';'' RecordStart t =
           columns d # map (row_texts (number_text w d) (columns d)) (rows d)"
    unfolding assms(5) using cols assms(6)
    by (intro parse_to_csv_text) (simp_all add: written_fields_def)
  have "list_all (\<lambda>r. length r = length (columns d))
          (columns d # map (row_texts (number_text w d) (columns d)) (rows d))"
    using rect by (simp add: list_all_iff row_texts_def)
  moreover have "files (snd (combine_and_save_data da db out w)) out =
           Some \<lparr>file_encoding = UTF8, content = t\<rparr>"
    using combine_and_save_writes [OF assms(3,4)] by (simp add: assms(5))
  ultimately show ?thesis
    by (simp add: parse len_def)
qed

lemma example_cr_quoted:
  "result_frame (combined_data (Some 0) None (world_cr\<lparr>quotes_cr := True\<rparr>)) =
     Some \<lparr>columns = [''Bundesland'', ''Wert'', ''Wohnort/Behandlungsort''],
           rows = [[StrC (''Saar'' @ carriage_return # ''land''), IntC 1,
                    StrC ''nach Behandlungsort''],
                   [StrC ''Berlin'', IntC 2, StrC ''nach Behandlungsort'']]\<rparr>"
  by code_simp

theorem csv_round_trip_witness:
  "wf_input world0 (Some 0) \<and> wf_input world0 (Some 1) \<and>
   result_frame (combined_data (Some 0) (Some 1) world0) \<noteq> None \<and>
   ''GAC_Daten_Roh.csv'' \<notin> set (unwritable world0) \<and>
   \<not> quotes_cr world0 \<and>
   cr_free (written_fields world0
     (the (result_frame (combined_data (Some 0) (Some 1) world0)))) \<and>
   length (csv_parse CHR '';'' RecordStart
     (content (the (files (snd (combine_and_save_data (Some 0) (Some 1)
        ''GAC_Daten_Roh.csv'' world0)) ''GAC_Daten_Roh.csv'')))) = 4 \<and>
   wf_input (world_cr\<lparr>quotes_cr := True\<rparr>) (Some 0) \<and>
   wf_input (world_cr\<lparr>quotes_cr := True\<rparr>) None \<and>
   quotes_cr (world_cr\<lparr>quotes_cr := True\<rparr>) \<and>
   ''GAC_Daten_Roh.csv'' \<notin> set (unwritable (world_cr\<lparr>quotes_cr := True\<rparr>)) \<and>
   csv_parse CHR '';'' RecordStart
     (content (the (files (snd (combine_and_save_data (Some 0) None
        ''GAC_Daten_Roh.csv'' (world_cr\<lparr>quotes_cr := True\<rparr>))) ''GAC_Daten_Roh.csv''))) =
     [[''Bundesland'', ''Wert'', ''Wohnort/Behandlungsort''],
      [''Saar'' @ carriage_return # ''land'', ''1'', ''nach Behandlungsort''],
      [''Berlin'', ''2'', ''nach Behandlungsort'']]"
proof -
  have wf: "wf_input world0 (Some 0)" "wf_input world0 (Some 1)"
    by (simp_all add: wf_input_def wf_df_def world0_def table_a_def table_b_def deref_def)
  have u: "''GAC_Daten_Roh.csv'' \<notin> set (unwritable world0)" by (simp add: world0_def)
  have q: "\<not> quotes_cr world0" by (simp add: world0_def)
  have r: "result_frame (combined_data (Some 0) (Some 1) world0) \<noteq> None"
    by (simp only: example_combined) simp
  have free: "cr_free (written_fields world0
      \<lparr>columns = [''Jahr'', ''Bundesland'', ''Wert'', ''Wohnort/Behandlungsort''],
       rows = [[IntC 2005, StrC ''Berlin'', IntC 7, StrC ''nach Behandlungsort''],
               [IntC 2005, StrC ''Hessen'', IntC 3, StrC ''nach Wohnort''],
               [IntC 2006, StrC ''Bayern'', IntC 12, StrC ''nach Behandlungsort'']]\<rparr>)"
    by code_simp
  then have free': "cr_free (written_fields world0
     (the (result_frame (combined_data (Some 0) (Some 1) world0))))"
    by (simp only: example_combined option.sel)
  note trip = csv_round_trip [OF wf example_combined u refl disjI2 [OF free]]
  have "length (csv_parse CHR '';'' RecordStart
     (content (the (files (snd (combine_and_save_data (Some 0) (Some 1)
        ''GAC_Daten_Roh.csv'' world0)) ''GAC_Daten_Roh.csv'')))) =
     1 + len \<lparr>columns = [''Jahr'', ''Bundesland'', ''Wert'', ''Wohnort/Behandlungsort''],
           rows = [[IntC 2005, StrC ''Berlin'', IntC 7, StrC ''nach Behandlungsort''],
                   [IntC 2005, StrC ''Hessen'', IntC 3, StrC ''nach Wohnort''],
                   [IntC 2006, StrC ''Bayern'', IntC 12, StrC ''nach Behandlungsort'']]\<rparr>"
    using trip [THEN conjunct2, THEN conjunct2, THEN conjunct1]
    by (simp only: trip [THEN conjunct1] option.sel text_file.simps)
  then have n: "length (csv_parse CHR '';'' RecordStart
     (content (the (files (snd (combine_and_save_data (Some 0) (Some 1)
        ''GAC_Daten_Roh.csv'' world0)) ''GAC_Daten_Roh.csv'')))) = 4"
    by (simp add: len_def)
  have wf': "wf_input (world_cr\<lparr>quotes_cr := True\<rparr>) (Some 0)"
    "wf_input (world_cr\<lparr>quotes_cr := True\<rparr>) None"
    by (simp_all add: wf_input_def wf_df_def world_cr_def world0_def table_cr_def deref_def)
  have u': "''GAC_Daten_Roh.csv'' \<notin> set (unwritable (world_cr\<lparr>quotes_cr := True\<rparr>))"
    by (simp add: world_cr_def world0_def)
  have q': "quotes_cr (world_cr\<lparr>quotes_cr := True\<rparr>)" by simp
  note trip' = csv_round_trip [OF wf' example_cr_quoted u' refl disjI1 [OF q']]
  have "csv_parse CHR '';'' RecordStart
     (content (the (files (snd (combine_and_save_data (Some 0) None
        ''GAC_Daten_Roh.csv'' (world_cr\<lparr>quotes_cr := True\<rparr>))) ''GAC_Daten_Roh.csv''))) =
     columns \<lparr>columns = [''Bundesland'', ''Wert'', ''Wohnort/Behandlungsort''],
           rows = [[StrC (''Saar'' @ carriage_return # ''land''), IntC 1,
                    StrC ''nach Behandlungsort''],
                   [StrC ''Berlin'', IntC 2, StrC ''nach Behandlungsort'']]\<rparr> #
     map (row_texts (number_text (world_cr\<lparr>quotes_cr := True\<rparr>)
            \<lparr>columns = [''Bundesland'', ''Wert'', ''Wohnort/Behandlungsort''],
             rows = [[StrC (''Saar'' @ carriage_return # ''land''), IntC 1,
                      StrC ''nach Behandlungsort''],
                     [StrC ''Berlin'', IntC 2, StrC ''nach Behandlungsort'']]\<rparr>)
            (columns \<lparr>columns = [''Bundesland'', ''Wert'', ''Wohnort/Behandlungsort''],
             rows = [[StrC (''Saar'' @ carriage_return # ''land''), IntC 1,
                      StrC ''nach Behandlungsort''],
                     [StrC ''Berlin'', IntC 2, StrC ''nach Behandlungsort'']]\<rparr>))
       (rows \<lparr>columns = [''Bundesland'', ''Wert'', ''Wohnort/Behandlungsort''],
           rows = [[StrC (''Saar'' @ carriage_return # ''land''), IntC 1,
                    StrC ''nach Behandlungsort''],
                   [StrC ''Berlin'', IntC 2, StrC ''nach Behandlungsort'']]\<rparr>)"
    using trip' [THEN conjunct2, THEN conjunct1]
    by (simp only: trip' [THEN conjunct1] option.sel text_file.simps)
  also have "\<dots> =
     [[''Bundesland'', ''Wert'', ''Wohnort/Behandlungsort''],
      [''Saar'' @ carriage_return # ''land'', ''1'', ''nach Behandlungsort''],
      [''Berlin'', ''2'', ''nach Behandlungsort'']]"
    by code_simp
  finally have p: "csv_parse CHR '';'' RecordStart
     (content (the (files (snd (combine_and_save_data (Some 0) None
        ''GAC_Daten_Roh.csv'' (world_cr\<lparr>quotes_cr := True\<rparr>))) ''GAC_Daten_Roh.csv''))) =
     [[''Bundesland'', ''Wert'', ''Wohnort/Behandlungsort''],
      [''Saar'' @ carriage_return # ''land'', ''1'', ''nach Behandlungsort''],
      [''Berlin'', ''2'', ''nach Behandlungsort'']]" .
  show ?thesis using wf r u q free' n wf' q' u' p by (intro conjI)
qed

end
